theory Spec2Isabelle
  imports Complex_Main "HOL-Library.Word" "HOL-Library.Sublist"
begin

section \<open>JavaScript values\<close>

text \<open>
  A JavaScript string is a sequence of UTF-16 code units; \<open>charCodeAt\<close> reads one as a
  number (\<open>unat\<close>).  \<open>js\<close> embeds a literal of the source; characters above U+007F are
  written as code units (\<open>0xFC\<close> is u-umlaut, \<open>0xB0\<close> the degree sign).
\<close>

type_synonym jsstring = "16 word list"

definition js :: "string \<Rightarrow> jsstring" where
  "js s = map (\<lambda>c. of_char c) s"

text \<open>
  The payloads are what \<open>response.json()\<close> produces, plus \<open>undefined\<close>.  A number is the
  rational value of the double.  An object is a finite map from property names to values
  (property order is not modelled).
\<close>

datatype jsvalue =
    JUndefined
  | JNull
  | JBool bool
  | JNum rat
  | JStr jsstring
  | JArr "jsvalue list"
  | JObj "jsstring \<Rightarrow> jsvalue option"

text \<open>The truthiness test of \<open>if (v)\<close>.\<close>

fun truthy :: "jsvalue \<Rightarrow> bool" where
  "truthy JUndefined = False"
| "truthy JNull = False"
| "truthy (JBool b) = b"
| "truthy (JNum x) = (x \<noteq> 0)"
| "truthy (JStr s) = (s \<noteq> [])"
| "truthy (JArr xs) = True"
| "truthy (JObj m) = True"

text \<open>\<open>String(n)\<close> for a non-negative integer: its decimal digits.\<close>

fun dec :: "nat \<Rightarrow> jsstring" where
  "dec n = (if n < 10 then [of_nat (48 + n)] else dec (n div 10) @ [of_nat (48 + n mod 10)])"

declare dec.simps [simp del]

text \<open>
  The own enumerable properties that an object spread \<open>{...v}\<close> copies: those of an
  object, the indexed elements of an array or string, none of a primitive.
\<close>

fun own_props :: "jsvalue \<Rightarrow> (jsstring \<rightharpoonup> jsvalue)" where
  "own_props (JObj m) = m"
| "own_props (JArr xs) = map_of (zip (map dec [0..<length xs]) xs)"
| "own_props (JStr s) = map_of (zip (map dec [0..<length s]) (map (\<lambda>c. JStr [c]) s))"
| "own_props v = Map.empty"

text \<open>Property read \<open>v.p\<close> on a value known to be an object (\<open>undefined\<close> when missing).\<close>

definition get_prop :: "jsvalue \<Rightarrow> jsstring \<Rightarrow> jsvalue" where
  "get_prop v p = (case own_props v p of None \<Rightarrow> JUndefined | Some x \<Rightarrow> x)"

text \<open>An exception value; the code inspects only \<open>error.message\<close>.\<close>

datatype error = Error (message: jsstring)

text \<open>\<open>s.includes(t)\<close>: \<open>t\<close> occurs in \<open>s\<close> as a contiguous run.\<close>

definition str_includes :: "jsstring \<Rightarrow> jsstring \<Rightarrow> bool" where
  "str_includes s t = sublist t s"

text \<open>
  The state of the promise an \<open>async\<close> method returns, observed once nothing more can
  happen: fulfilled, rejected, or never settled.
\<close>

datatype 'a promise = Fulfilled 'a | Rejected error | Pending

section \<open>The browser environment of \<open>DataFetcher\<close>\<close>

text \<open>
  One \<open>fetch()\<close> exchange as the network decides it: how long it takes to settle (ms) and
  what it settles to.  A response carries its status and what \<open>response.json()\<close> makes of
  the body (the parsed value, or the exception of a malformed body).
\<close>

datatype netresult = NetError error | Response nat "error + jsvalue"

record exchange =
  took :: nat
  outcome :: netresult

record fetch_options =
  http_method :: jsstring
  headers :: "(jsstring \<times> jsstring) list"
  body :: jsvalue

datatype event = Fetch jsstring fetch_options | Sleep int

text \<open>
  A record of the IndexedDB object store \<open>analysis\<close> (key path \<open>plz\<close>) extends the shape
  of a memory-cache entry \<open>{data, timestamp}\<close> by its key.
\<close>

record entry =
  data :: jsvalue
  timestamp :: int

record offline_record = entry +
  plz :: jsstring

text \<open>
  The database \<open>waterDataCache\<close>, once created, is at version 1 and holds the object store
  \<open>analysis\<close> or no object store at all.
\<close>

datatype database = Database (analysis: "(jsstring \<rightharpoonup> offline_record) option")

text \<open>
  The world a method runs in.  \<open>now\<close> is \<open>Date.now()\<close>; \<open>net\<close> is the script of the
  network, \<open>net w n\<close> answering the \<open>n\<close>-th \<open>fetch()\<close> ever issued, and \<open>reqs\<close> counts the
  calls issued so far; \<open>trace\<close> logs calls and timer waits; \<open>abortError\<close> is the exception
  an aborted \<open>fetch()\<close> rejects with.  \<open>hasIndexedDB\<close> is \<open>'indexedDB' in window\<close>;
  \<open>openError\<close>, \<open>putError\<close> and \<open>getFails\<close> say whether the next open request, write
  transaction or read request ends in its \<open>error\<close> event; \<open>db\<close> is the database, \<open>None\<close>
  before it is first opened.  IndexedDB requests take no time on the model's clock.
\<close>

record world =
  now :: int
  onLine :: bool
  net :: "nat \<Rightarrow> exchange"
  reqs :: nat
  trace :: "event list"
  abortError :: error
  hasIndexedDB :: bool
  openError :: "error option"
  putError :: "error option"
  getFails :: bool
  db :: "database option"

section \<open>\<open>DataFetcher\<close> (modules/map-manager.js)\<close>

record fetcher =
  cache :: "jsstring \<rightharpoonup> entry"
  cacheDuration :: int
  apiBase :: jsstring

text \<open>
  The constructor: \<open>options.cacheDuration || 5 * 60 * 1000\<close> and \<open>options.apiBase || '/api'\<close>
  (a missing, zero or empty option is falsy).
\<close>

definition DataFetcher :: "int option \<Rightarrow> jsstring option \<Rightarrow> fetcher" where
  "DataFetcher optCacheDuration optApiBase =
     \<lparr> cache = Map.empty,
       cacheDuration = (case optCacheDuration of
                          None \<Rightarrow> 5 * 60 * 1000
                        | Some d \<Rightarrow> if d = 0 then 5 * 60 * 1000 else d),
       apiBase = (case optApiBase of
                    None \<Rightarrow> js ''/api''
                  | Some b \<Rightarrow> if b = [] then js ''/api'' else b) \<rparr>"

subsection \<open>\<open>setupCacheCleanup\<close>\<close>

text \<open>
  The timer callback, run at time \<open>t\<close>: it deletes every entry with
  \<open>t - value.timestamp > this.cacheDuration\<close>.  The timer period is 60000 ms.
\<close>

definition cleanupInterval :: int where
  "cleanupInterval = 60000"

definition cacheCleanup :: "fetcher \<Rightarrow> int \<Rightarrow> fetcher" where
  "cacheCleanup this t =
     this\<lparr>cache := (\<lambda>key. case cache this key of
                              None \<Rightarrow> None
                            | Some v \<Rightarrow> if t - timestamp v > cacheDuration this then None
                                        else Some v)\<rparr>"

subsection \<open>\<open>fetchWithRetry\<close>\<close>

text \<open>
  What one pass of the loop body makes of an exchange: the 8000 ms timer aborts a
  \<open>fetch()\<close> that has not settled; a rejection is thrown on; a response that is not
  \<open>ok\<close> (status outside 200..299) throws \<open>HTTP <status>\<close>; otherwise \<open>response.json()\<close>.
\<close>

definition attempt_result :: "error \<Rightarrow> exchange \<Rightarrow> error + jsvalue" where
  "attempt_result aborted x =
     (if 8000 \<le> took x then Inl aborted
      else case outcome x of
             NetError e \<Rightarrow> Inl e
           | Response st parsed \<Rightarrow>
               if \<not> (200 \<le> st \<and> st \<le> 299) then Inl (Error (js ''HTTP '' @ dec st))
               else parsed)"

definition attempt :: "jsstring \<Rightarrow> fetch_options \<Rightarrow> world \<Rightarrow> (error + jsvalue) \<times> world" where
  "attempt url options w =
     (let x = net w (reqs w) in
      (attempt_result (abortError w) x,
       w\<lparr>now := now w + int (min (took x) 8000),
         reqs := Suc (reqs w),
         trace := trace w @ [Fetch url options]\<rparr>))"

definition sleep :: "int \<Rightarrow> world \<Rightarrow> world" where
  "sleep ms w = w\<lparr>now := now w + ms, trace := trace w @ [Sleep ms]\<rparr>"

text \<open>
  The loop \<open>for (let i = 0; i < retries; i++)\<close>, entered at \<open>i\<close>.  A loop that ends
  without returning makes the method return \<open>undefined\<close>.
\<close>

function fetchWithRetry_from ::
  "nat \<Rightarrow> jsstring \<Rightarrow> fetch_options \<Rightarrow> nat \<Rightarrow> world \<Rightarrow> jsvalue promise \<times> world" where
  "fetchWithRetry_from i url options retries w =
     (if i < retries then
        (case attempt url options w of
           (Inr v, w1) \<Rightarrow> (Fulfilled v, w1)
         | (Inl e, w1) \<Rightarrow>
             if i = retries - 1 then (Rejected e, w1)
             else fetchWithRetry_from (Suc i) url options retries (sleep (1000 * 2 ^ i) w1))
      else (Fulfilled JUndefined, w))"
  by pat_completeness auto
termination
  by (relation "measure (\<lambda>(i, url, options, retries, w). retries - i)") auto

declare fetchWithRetry_from.simps [simp del]

definition fetchWithRetry ::
  "jsstring \<Rightarrow> fetch_options \<Rightarrow> nat \<Rightarrow> world \<Rightarrow> jsvalue promise \<times> world" where
  "fetchWithRetry url options retries w = fetchWithRetry_from 0 url options retries w"

subsection \<open>\<open>saveOfflineData\<close> and \<open>getOfflineData\<close>\<close>

text \<open>
  Opening the database at version 1.  An open request that fails fires \<open>onerror\<close>.
  Otherwise a database that does not exist yet is created by the upgrade to version 1,
  with whatever the \<open>onupgradeneeded\<close> handler of the caller creates (\<open>create\<close>: the
  object store \<open>analysis\<close>, or nothing when the caller has no handler); an existing one is
  already at version 1 and is opened as it is.
\<close>

definition open_db :: "world \<Rightarrow> bool \<Rightarrow> error + database" where
  "open_db w create =
     (case openError w of
        Some e \<Rightarrow> Inl e
      | None \<Rightarrow>
          (case db w of
             None \<Rightarrow> Inr (Database (if create then Some Map.empty else None))
           | Some d \<Rightarrow> Inr d))"

text \<open>
  \<open>saveOfflineData\<close>.  Without IndexedDB it returns at once.  \<open>request.onerror\<close> rejects.  In
  \<open>request.onsuccess\<close>, \<open>db.transaction(['analysis'], 'readwrite')\<close> throws NotFoundError when
  the database has no such object store: the exception leaves the event handler and the
  promise is never settled.  Otherwise the record is put with \<open>Date.now()\<close>, and the
  transaction completes (resolve) or fails (\<open>transaction.onerror\<close> rejects, nothing stored).
\<close>

definition saveOfflineData :: "fetcher \<Rightarrow> world \<Rightarrow> jsstring \<Rightarrow> jsvalue \<Rightarrow> unit promise \<times> world" where
  "saveOfflineData this w key d =
     (if \<not> hasIndexedDB w then (Fulfilled (), w)
      else case open_db w True of
             Inl e \<Rightarrow> (Rejected e, w)
           | Inr opened \<Rightarrow>
               (case analysis opened of
                  None \<Rightarrow> (Pending, w\<lparr>db := Some opened\<rparr>)
                | Some store \<Rightarrow>
                    (case putError w of
                       Some e \<Rightarrow> (Rejected e, w\<lparr>db := Some opened\<rparr>)
                     | None \<Rightarrow>
                         (Fulfilled (),
                          w\<lparr>db := Some (Database (Some (store(key \<mapsto>
                                 \<lparr>data = d, timestamp = now w, plz = key\<rparr>))))\<rparr>))))"

text \<open>
  \<open>getOfflineData\<close>.  It has no \<open>onupgradeneeded\<close> handler.  Every error event resolves
  \<open>null\<close>; a record is returned only when \<open>Date.now() - result.timestamp\<close> is below
  7 days; nothing is written to the object store.
\<close>

definition maxOfflineAge :: int where
  "maxOfflineAge = 7 * 24 * 60 * 60 * 1000"

definition getOfflineData :: "fetcher \<Rightarrow> world \<Rightarrow> jsstring \<Rightarrow> jsvalue promise \<times> world" where
  "getOfflineData this w key =
     (if \<not> hasIndexedDB w then (Fulfilled JNull, w)
      else case open_db w False of
             Inl e \<Rightarrow> (Fulfilled JNull, w)
           | Inr opened \<Rightarrow>
               (case analysis opened of
                  None \<Rightarrow> (Pending, w\<lparr>db := Some opened\<rparr>)
                | Some store \<Rightarrow>
                    (if getFails w then (Fulfilled JNull, w\<lparr>db := Some opened\<rparr>)
                     else case store key of
                            None \<Rightarrow> (Fulfilled JNull, w\<lparr>db := Some opened\<rparr>)
                          | Some result \<Rightarrow>
                              if now w - timestamp result < maxOfflineAge
                              then (Fulfilled (data result), w\<lparr>db := Some opened\<rparr>)
                              else (Fulfilled JNull, w\<lparr>db := Some opened\<rparr>))))"

subsection \<open>\<open>getFallbackData\<close>\<close>

text \<open>
  \<open>x.toFixed(f)\<close> for \<open>|x| < 10^21\<close>: the integer \<open>n\<close> nearest to \<open>x * 10^f\<close> (the larger
  one of two), its digits padded to \<open>f + 1\<close> places, and the decimal point.
  \<open>Math.round\<close> rounds to the nearest integer, a tie upwards.
\<close>

definition toFixed :: "rat \<Rightarrow> nat \<Rightarrow> jsstring" where
  "toFixed x f =
     (let n = nat \<lfloor>\<bar>x\<bar> * 10 ^ f + 1 / 2\<rfloor>;
          m = replicate (Suc f - length (dec n)) 48 @ dec n;
          k = length m
      in (if x < 0 then js ''-'' else []) @
         (if f = 0 then dec n else take (k - f) m @ js ''.'' @ drop (k - f) m))"

definition Math_round :: "rat \<Rightarrow> rat" where
  "Math_round x = of_int \<lfloor>x + 1 / 2\<rfloor>"

definition guessCityFromPLZ :: "fetcher \<Rightarrow> jsstring \<Rightarrow> jsstring" where
  "guessCityFromPLZ this key =
     (let cities = map_of
            [(js ''10'', js ''Berlin''),
             (js ''20'', js ''Hamburg''),
             (js ''30'', js ''Hannover''),
             (js ''40'', js ''D'' @ [0xFC] @ js ''sseldorf''),
             (js ''50'', js ''K'' @ [0xF6] @ js ''ln''),
             (js ''60'', js ''Frankfurt''),
             (js ''70'', js ''Stuttgart''),
             (js ''80'', js ''M'' @ [0xFC] @ js ''nchen''),
             (js ''90'', js ''N'' @ [0xFC] @ js ''rnberg'')];
          prefix = take 2 key
      in case cities prefix of
           None \<Rightarrow> js ''Unbekannte Region''
         | Some city \<Rightarrow> city)"

text \<open>
  \<open>hash\<close> is the sum of the code units of the key and \<open>seed = (hash % 100) / 100\<close>.  The
  numbers are computed in exact arithmetic; on each of the 100 possible seeds the
  double-precision results of the source round to the same digits.
\<close>

definition getFallbackData :: "fetcher \<Rightarrow> world \<Rightarrow> jsstring \<Rightarrow> jsvalue" where
  "getFallbackData this w key =
     (let hash = foldl (\<lambda>acc ch. acc + unat ch) 0 key;
          seed = (of_nat (hash mod 100) :: rat) / 100
      in JObj (map_of
           [(js ''success'', JBool True),
            (js ''plz'', JStr key),
            (js ''city'', JStr (guessCityFromPLZ this key)),
            (js ''waterData'', JObj (map_of
               [(js ''pfas'', JObj (map_of
                   [(js ''value'', JStr (toFixed (10 + seed * 30) 1)),
                    (js ''unit'', JStr (js ''ng/L'')),
                    (js ''limit'', JNum 20)])),
                (js ''nitrate'', JObj (map_of
                   [(js ''value'', JStr (toFixed (20 + seed * 30) 1)),
                    (js ''unit'', JStr (js ''mg/L'')),
                    (js ''limit'', JNum 50)])),
                (js ''hardness'', JObj (map_of
                   [(js ''value'', JStr (toFixed (10 + seed * 15) 0)),
                    (js ''unit'', JStr ([0xB0] @ js ''dH''))]))])),
            (js ''riskAssessment'', JObj (map_of
               [(js ''level'', JStr (if seed > 7 / 10 then js ''medium''
                                     else if seed > 4 / 10 then js ''elevated'' else js ''low'')),
                (js ''score'', JNum (Math_round (seed * 70))),
                (js ''color'', JStr (if seed > 7 / 10 then js ''orange''
                                     else if seed > 4 / 10 then js ''yellow'' else js ''green''))])),
            (js ''recommendations'', JArr
               [JObj (map_of
                  [(js ''id'', JStr (js ''lotus_vita'')),
                   (js ''name'', JStr (js ''Lotus Vita Fontana'')),
                   (js ''type'', JStr (js ''countertop'')),
                   (js ''price'', JNum 329)])]),
            (js ''source'', JStr (js ''fallback_data'')),
            (js ''offline'', JBool True)]))"

subsection \<open>\<open>fetchWaterAnalysis\<close>\<close>

text \<open>The object \<open>{ ...v, source: tag }\<close>.\<close>

definition tagged :: "jsvalue \<Rightarrow> jsstring \<Rightarrow> jsstring \<rightharpoonup> jsvalue" where
  "tagged v tag = (own_props v)(js ''source'' \<mapsto> JStr tag)"

text \<open>The cache key \<open>analysis_<plz>\<close> and the request of step 3.\<close>

abbreviation cacheKey :: "jsstring \<Rightarrow> jsstring" where
  "cacheKey key \<equiv> js ''analysis_'' @ key"

abbreviation analysis_url :: "fetcher \<Rightarrow> jsstring" where
  "analysis_url this \<equiv> apiBase this @ js ''/water-analysis''"

abbreviation analysis_options :: "jsstring \<Rightarrow> fetch_options" where
  "analysis_options key \<equiv>
     \<lparr>http_method = js ''POST'',
      headers = [(js ''Content-Type'', js ''application/json'')],
      body = JObj [js ''plz'' \<mapsto> JStr key]\<rparr>"

text \<open>The test of step 1: no forced refresh, and an entry younger than the TTL.\<close>

abbreviation memory_hit :: "fetcher \<Rightarrow> world \<Rightarrow> jsstring \<Rightarrow> bool \<Rightarrow> entry \<Rightarrow> bool" where
  "memory_hit this w key forceRefresh cached \<equiv>
     \<not> forceRefresh \<and> cache this (cacheKey key) = Some cached \<and>
     now w - timestamp cached < cacheDuration this"

text \<open>The \<open>catch\<close> block of step 3: fallback data for a message with \<open>Failed to fetch\<close>.\<close>

definition catch_fetch :: "fetcher \<Rightarrow> world \<Rightarrow> jsstring \<Rightarrow> error \<Rightarrow> jsvalue promise" where
  "catch_fetch this w key e =
     (if str_includes (message e) (js ''Failed to fetch'')
      then Fulfilled (getFallbackData this w key)
      else Rejected e)"

definition offlineUnavailable :: error where
  "offlineUnavailable =
     Error (js ''Offline und keine gespeicherten Daten verf'' @ [0xFC] @ js ''gbar'')"

text \<open>
  Steps 2 to 5, reached when step 1 did not return.  The \<open>throw\<close> of step 2 is outside the
  \<open>try\<close>; the \<open>await\<close> of \<open>saveOfflineData\<close> is inside it.  \<open>logAnalytics\<close> (step 5) builds a
  log entry and touches nothing of the state modelled here; \<open>process.env.NODE_ENV\<close> is
  taken to be defined by the build of the module and \<open>gtag\<close>, when present, not to throw.
\<close>

definition fetchUncached ::
  "fetcher \<Rightarrow> world \<Rightarrow> jsstring \<Rightarrow> jsvalue promise \<times> fetcher \<times> world" where
  "fetchUncached this w key =
     (if \<not> onLine w then
        (case getOfflineData this w key of
           (Fulfilled offlineData, w1) \<Rightarrow>
             if truthy offlineData
             then (Fulfilled (JObj ((tagged offlineData (js ''offline_storage''))
                                      (js ''offline'' \<mapsto> JBool True))), this, w1)
             else (Rejected offlineUnavailable, this, w1)
         | (Rejected e, w1) \<Rightarrow> (Rejected e, this, w1)
         | (Pending, w1) \<Rightarrow> (Pending, this, w1))
      else
        (case fetchWithRetry (analysis_url this) (analysis_options key) 3 w of
           (Fulfilled d, w1) \<Rightarrow>
             (let this1 = this\<lparr>cache := (cache this)(cacheKey key \<mapsto>
                                   \<lparr>data = d, timestamp = now w1\<rparr>)\<rparr>
              in case saveOfflineData this1 w1 key d of
                   (Fulfilled u, w2) \<Rightarrow> (Fulfilled (JObj (tagged d (js ''api''))), this1, w2)
                 | (Rejected e, w2) \<Rightarrow> (catch_fetch this1 w2 key e, this1, w2)
                 | (Pending, w2) \<Rightarrow> (Pending, this1, w2))
         | (Rejected e, w1) \<Rightarrow> (catch_fetch this w1 key e, this, w1)
         | (Pending, w1) \<Rightarrow> (Pending, this, w1)))"

text \<open>Step 1, the memory cache, then the rest.\<close>

definition fetchWaterAnalysis ::
  "fetcher \<Rightarrow> world \<Rightarrow> jsstring \<Rightarrow> bool \<Rightarrow> jsvalue promise \<times> fetcher \<times> world" where
  "fetchWaterAnalysis this w key forceRefresh =
     (case (if forceRefresh then None else cache this (cacheKey key)) of
        Some cached \<Rightarrow>
          if now w - timestamp cached < cacheDuration this
          then (Fulfilled (JObj (tagged (data cached) (js ''memory_cache''))), this, w)
          else fetchUncached this w key
      | None \<Rightarrow> fetchUncached this w key)"

section \<open>\<open>AffiliateOptimizer.bufferAnalytics\<close> (modules/affiliate-optimizer.js)\<close>

text \<open>
  The localStorage item \<open>analytics_buffer\<close> is a string, modelled by what the code makes
  of it: the empty string (falsy, replaced by \<open>'[]'\<close>), a text \<open>JSON.parse\<close> rejects, the
  JSON text of an array of events, or the JSON text of anything else (on which \<open>push\<close>
  is not a function).  A missing item (\<open>getItem\<close> returns \<open>null\<close>) is \<open>None\<close>; it and the
  empty string are falsy and make the code parse \<open>'[]'\<close>.
\<close>

datatype 'e stored = EmptyString | NotJson | JsonArray "'e list" | JsonOther

datatype buffer_error = SyntaxError | TypeError

text \<open>\<open>xs.slice(-n)\<close> for \<open>n > 0\<close>: from index \<open>max (length - n) 0\<close> to the end.\<close>

definition slice_from_end :: "nat \<Rightarrow> 'a list \<Rightarrow> 'a list" where
  "slice_from_end n xs = drop (length xs - n) xs"

definition bufferAnalytics :: "'e \<Rightarrow> 'e stored option \<Rightarrow> buffer_error + 'e stored option" where
  "bufferAnalytics ev item =
     (case item of
        Some NotJson \<Rightarrow> Inl SyntaxError
      | Some JsonOther \<Rightarrow> Inl TypeError
      | Some (JsonArray buffer) \<Rightarrow> Inr (Some (JsonArray (slice_from_end 50 (buffer @ [ev]))))
      | _ \<Rightarrow> Inr (Some (JsonArray (slice_from_end 50 ([] @ [ev])))))"

text \<open>The events held by the item before a call.\<close>

fun buffered :: "'e stored option \<Rightarrow> 'e list" where
  "buffered (Some (JsonArray xs)) = xs"
| "buffered item = []"

section \<open>The service worker (public/sw.js)\<close>

text \<open>
  The URL of a request, as \<open>new URL(request.url)\<close> parses it: an http(s) URL has a list
  of path segments and its \<open>pathname\<close> is \<open>/\<close> followed by the segments joined by \<open>/\<close>.
  \<open>href\<close> is the serialised URL, the key of a cached response.
\<close>

record url =
  origin :: jsstring
  segments :: "jsstring list"
  search :: jsstring

fun join_segments :: "jsstring list \<Rightarrow> jsstring" where
  "join_segments [] = []"
| "join_segments [s] = s"
| "join_segments (s # ss) = s @ js ''/'' @ join_segments ss"

definition pathname :: "url \<Rightarrow> jsstring" where
  "pathname u = js ''/'' @ join_segments (segments u)"

definition href :: "url \<Rightarrow> jsstring" where
  "href u = origin u @ pathname u @ search u"

record request =
  req_method :: jsstring
  req_url :: url
  mode :: jsstring

text \<open>
  A response: its status and its body, either the text the network delivered or the
  \<open>JSON.stringify\<close> text of a value built by the worker.  A clone is the same value.
\<close>

datatype body = NetBody jsstring | JsonText jsvalue

record response =
  status :: nat
  resp_headers :: "(jsstring \<times> jsstring) list"
  resp_body :: body

text \<open>
  The worker's world: the cache storage (named caches in creation order, each a map from
  request URL to response), what \<open>fetch(request)\<close> settles to (\<open>Inl\<close>: it rejects), and
  the origin the worker is served from.  Cache operations always succeed.
\<close>

record sw_world =
  caches :: "(jsstring \<times> (jsstring \<rightharpoonup> response)) list"
  sw_net :: "request \<Rightarrow> error + response"
  self_origin :: jsstring

definition CACHE_NAME :: jsstring where
  "CACHE_NAME = js ''wasserfilter-v4''"

definition OFFLINE_URL :: jsstring where
  "OFFLINE_URL = js ''/offline.html''"

definition PRECACHE_ASSETS :: "jsstring list" where
  "PRECACHE_ASSETS =
     [js ''/'', js ''/index.html'', js ''/styles/main.css'', js ''/scripts/main.js'',
      js ''/images/logo.png'', js ''/manifest.json'', js ''/favicon.ico'']"

definition API_CACHE_PATTERNS :: "jsstring list" where
  "API_CACHE_PATTERNS = [js ''/api/water-analysis'', js ''/api/plz-data'']"

text \<open>\<open>caches.open(name)\<close> creates the cache when it is missing.\<close>

definition caches_open :: "jsstring \<Rightarrow> sw_world \<Rightarrow> sw_world" where
  "caches_open name w =
     (case map_of (caches w) name of
        None \<Rightarrow> w\<lparr>caches := caches w @ [(name, Map.empty)]\<rparr>
      | Some c \<Rightarrow> w)"

text \<open>\<open>cache.match(request)\<close> and \<open>cache.put(request, response)\<close> on the cache \<open>name\<close>.\<close>

definition cache_match :: "jsstring \<Rightarrow> sw_world \<Rightarrow> request \<Rightarrow> response option" where
  "cache_match name w request =
     (case map_of (caches w) name of
        None \<Rightarrow> None
      | Some c \<Rightarrow> c (href (req_url request)))"

definition cache_put :: "jsstring \<Rightarrow> request \<Rightarrow> response \<Rightarrow> sw_world \<Rightarrow> sw_world" where
  "cache_put name request resp w =
     w\<lparr>caches := map (\<lambda>(n, c). if n = name then (n, c(href (req_url request) \<mapsto> resp)) else (n, c))
                     (caches w)\<rparr>"

text \<open>\<open>caches.match(path)\<close>: the first cache, in creation order, that holds the URL.\<close>

definition caches_match :: "sw_world \<Rightarrow> jsstring \<Rightarrow> response option" where
  "caches_match w path =
     (case filter (\<lambda>(n, c). c (self_origin w @ path) \<noteq> None) (caches w) of
        [] \<Rightarrow> None
      | (n, c) # rest \<Rightarrow> c (self_origin w @ path))"

text \<open>
  A handler settles to a response or to \<open>undefined\<close> (\<open>Inr None\<close>), or rejects (\<open>Inl\<close>).
  \<open>cache.put\<close> is not awaited by the handlers; its effect is part of the world they return.
\<close>

type_synonym settled = "error + response option"

definition offlineResponse :: response where
  "offlineResponse =
     \<lparr>status = 503,
      resp_headers = [(js ''Content-Type'', js ''application/json'')],
      resp_body = JsonText (JObj
        [js ''error'' \<mapsto> JStr (js ''Offline''),
         js ''message'' \<mapsto> JStr (js
           ''Sie sind offline. Bitte stellen Sie eine Internetverbindung her.'')])\<rparr>"

definition handleApiRequest :: "request \<Rightarrow> sw_world \<Rightarrow> settled \<times> sw_world" where
  "handleApiRequest request w =
     (let w1 = caches_open CACHE_NAME w in
      case sw_net w request of
        Inr networkResponse \<Rightarrow>
          (Inr (Some networkResponse),
           if status networkResponse = 200 then cache_put CACHE_NAME request networkResponse w1
           else w1)
      | Inl e \<Rightarrow>
          (case cache_match CACHE_NAME w1 request of
             Some cachedResponse \<Rightarrow> (Inr (Some cachedResponse), w1)
           | None \<Rightarrow> (Inr (Some offlineResponse), w1)))"

text \<open>
  \<open>updateCache\<close>: a refetch that stores a 200 response and swallows a failure.
\<close>

definition updateCache :: "request \<Rightarrow> jsstring \<Rightarrow> sw_world \<Rightarrow> sw_world" where
  "updateCache request name w =
     (case sw_net w request of
        Inr networkResponse \<Rightarrow>
          if status networkResponse = 200 then cache_put name request networkResponse w else w
      | Inl e \<Rightarrow> w)"

text \<open>
  \<open>handleStaticRequest(request)\<close>.  Its only parameter is \<open>request\<close>, and neither the
  script nor the worker global scope binds the name \<open>event\<close>: on a cache hit, evaluating
  \<open>event.waitUntil\<close> throws a ReferenceError before \<open>updateCache\<close> is called and before
  the \<open>return\<close>.
\<close>

definition eventNotDefined :: error where
  "eventNotDefined = Error (js ''event is not defined'')"

definition handleStaticRequest :: "request \<Rightarrow> sw_world \<Rightarrow> settled \<times> sw_world" where
  "handleStaticRequest request w =
     (let w1 = caches_open CACHE_NAME w in
      case cache_match CACHE_NAME w1 request of
        Some cachedResponse \<Rightarrow> (Inl eventNotDefined, w1)
      | None \<Rightarrow>
          (case sw_net w request of
             Inr networkResponse \<Rightarrow> (Inr (Some networkResponse), w1)
           | Inl e \<Rightarrow> (Inl e, w1)))"

definition handleNetworkFirst :: "request \<Rightarrow> sw_world \<Rightarrow> settled \<times> sw_world" where
  "handleNetworkFirst request w =
     (case sw_net w request of
        Inr networkResponse \<Rightarrow> (Inr (Some networkResponse), w)
      | Inl e \<Rightarrow>
          (let w1 = caches_open CACHE_NAME w in
           case cache_match CACHE_NAME w1 request of
             Some cachedResponse \<Rightarrow> (Inr (Some cachedResponse), w1)
           | None \<Rightarrow>
               if mode request = js ''navigate'' then (Inr (caches_match w1 OFFLINE_URL), w1)
               else (Inl e, w1)))"

text \<open>
  The \<open>fetch\<close> listener.  \<open>None\<close>: it returns without \<open>respondWith\<close> and the browser
  handles the request itself; \<open>Some\<close>: what the promise given to \<open>respondWith\<close> settles to.
\<close>

definition onfetch :: "request \<Rightarrow> sw_world \<Rightarrow> settled option \<times> sw_world" where
  "onfetch request w =
     (if req_method request \<noteq> js ''GET'' then (None, w)
      else if list_ex (\<lambda>pattern. str_includes (pathname (req_url request)) pattern)
                API_CACHE_PATTERNS
      then (case handleApiRequest request w of (r, w1) \<Rightarrow> (Some r, w1))
      else if list_ex (\<lambda>asset. str_includes (pathname (req_url request)) asset)
                PRECACHE_ASSETS
      then (case handleStaticRequest request w of (r, w1) \<Rightarrow> (Some r, w1))
      else (case handleNetworkFirst request w of (r, w1) \<Rightarrow> (Some r, w1)))"

section \<open>Example inputs\<close>

text \<open>Concrete requests, responses and worlds on which the theorems below are evaluated.\<close>

definition example_origin :: jsstring where
  "example_origin = js ''https://example.org''"

definition api_request :: request where
  "api_request = \<lparr>req_method = js ''GET'',
     req_url = \<lparr>origin = example_origin, segments = [js ''api'', js ''plz-data''], search = js ''?plz=10115''\<rparr>,
     mode = js ''cors''\<rparr>"

definition asset_request :: request where
  "asset_request = \<lparr>req_method = js ''GET'',
     req_url = \<lparr>origin = example_origin, segments = [js ''index.html''], search = []\<rparr>,
     mode = js ''navigate''\<rparr>"

definition page_request :: request where
  "page_request = \<lparr>req_method = js ''GET'',
     req_url = \<lparr>origin = example_origin, segments = [js ''about.html''], search = []\<rparr>,
     mode = js ''navigate''\<rparr>"

definition page_200 :: "jsstring \<Rightarrow> response" where
  "page_200 text = \<lparr>status = 200, resp_headers = [], resp_body = NetBody text\<rparr>"

definition failedToFetch :: error where
  "failedToFetch = Error (js ''Failed to fetch'')"

definition sw_online :: "(jsstring \<times> (jsstring \<rightharpoonup> response)) list \<Rightarrow> sw_world" where
  "sw_online cs = \<lparr>caches = cs, sw_net = (\<lambda>r. Inr (page_200 (js ''fresh''))), self_origin = example_origin\<rparr>"

definition sw_offline :: "(jsstring \<times> (jsstring \<rightharpoonup> response)) list \<Rightarrow> sw_world" where
  "sw_offline cs = \<lparr>caches = cs, sw_net = (\<lambda>r. Inl failedToFetch), self_origin = example_origin\<rparr>"

definition example_key :: jsstring where
  "example_key = js ''10115''"

definition example_payload :: jsvalue where
  "example_payload = JObj [js ''success'' \<mapsto> JBool True]"

definition example_url :: jsstring where
  "example_url = js ''/api/water-analysis''"

definition example_options :: fetch_options where
  "example_options =
     \<lparr>http_method = js ''POST'',
      headers = [(js ''Content-Type'', js ''application/json'')],
      body = JObj [js ''plz'' \<mapsto> JStr example_key]\<rparr>"

text \<open>A network that fails the first two exchanges and then answers 200 with the payload.\<close>

definition flaky_net :: "nat \<Rightarrow> exchange" where
  "flaky_net n =
     (if n < 2 then \<lparr>took = 50, outcome = NetError failedToFetch\<rparr>
      else \<lparr>took = 120, outcome = Response 200 (Inr example_payload)\<rparr>)"

definition example_world :: world where
  "example_world =
     \<lparr>now = 1700000000000, onLine = True, net = flaky_net, reqs = 0, trace = [],
      abortError = Error (js ''The user aborted a request.''),
      hasIndexedDB = True, openError = None, putError = None, getFails = False, db = None\<rparr>"

definition example_fetcher :: fetcher where
  "example_fetcher = DataFetcher None None"

text \<open>A network that always answers, one that always fails, and a storage failure.\<close>

definition steady_net :: "nat \<Rightarrow> exchange" where
  "steady_net n = \<lparr>took = 120, outcome = Response 200 (Inr example_payload)\<rparr>"

definition down_net :: "nat \<Rightarrow> exchange" where
  "down_net n = \<lparr>took = 50, outcome = NetError failedToFetch\<rparr>"

definition storageError :: error where
  "storageError = Error (js ''The quota has been exceeded.'')"

definition reachable_world :: world where
  "reachable_world = example_world\<lparr>net := steady_net\<rparr>"

definition unreachable_world :: world where
  "unreachable_world = example_world\<lparr>net := down_net\<rparr>"

text \<open>A fetcher holding an entry one second old, and a world that is offline with a stored record.\<close>

definition fresh_entry :: entry where
  "fresh_entry = \<lparr>data = example_payload, timestamp = 1699999999000\<rparr>"

definition warm_fetcher :: fetcher where
  "warm_fetcher = example_fetcher\<lparr>cache := [cacheKey example_key \<mapsto> fresh_entry]\<rparr>"

definition stored_world :: world where
  "stored_world =
     example_world\<lparr>onLine := False,
       db := Some (Database (Some [example_key \<mapsto>
               \<lparr>data = example_payload, timestamp = 1699999999000, plz = example_key\<rparr>]))\<rparr>"

definition expired_world :: world where
  "expired_world = example_world\<lparr>now := 1700000299000, onLine := False, hasIndexedDB := False\<rparr>"

text \<open>A first call against the unreachable network, and one against the reachable network.\<close>

definition first_call :: "jsvalue promise \<times> fetcher \<times> world" where
  "first_call = fetchWaterAnalysis example_fetcher unreachable_world example_key False"

definition cached_call :: "jsvalue promise \<times> fetcher \<times> world" where
  "cached_call = fetchWaterAnalysis example_fetcher reachable_world example_key False"

section \<open>Properties\<close>

subsection \<open>The retry loop\<close>

lemma attempt_simps:
  "net (snd (attempt url opts w)) = net w"
  "abortError (snd (attempt url opts w)) = abortError w"
  "reqs (snd (attempt url opts w)) = Suc (reqs w)"
  "trace (snd (attempt url opts w)) = trace w @ [Fetch url opts]"
  "fst (attempt url opts w) = attempt_result (abortError w) (net w (reqs w))"
  by (simp_all add: attempt_def Let_def)

lemma sleep_simps:
  "net (sleep ms w) = net w"
  "abortError (sleep ms w) = abortError w"
  "reqs (sleep ms w) = reqs w"
  "trace (sleep ms w) = trace w @ [Sleep ms]"
  by (simp_all add: sleep_def)

lemma attempt_frame:
  "onLine (snd (attempt url opts w)) = onLine w"
  "hasIndexedDB (snd (attempt url opts w)) = hasIndexedDB w"
  "openError (snd (attempt url opts w)) = openError w"
  "putError (snd (attempt url opts w)) = putError w"
  "getFails (snd (attempt url opts w)) = getFails w"
  "db (snd (attempt url opts w)) = db w"
  "now (snd (attempt url opts w)) = now w + int (min (took (net w (reqs w))) 8000)"
  by (simp_all add: attempt_def Let_def)

lemma sleep_frame:
  "onLine (sleep ms w) = onLine w"
  "hasIndexedDB (sleep ms w) = hasIndexedDB w"
  "openError (sleep ms w) = openError w"
  "putError (sleep ms w) = putError w"
  "getFails (sleep ms w) = getFails w"
  "db (sleep ms w) = db w"
  "now (sleep ms w) = now w + ms"
  by (simp_all add: sleep_def)

lemma retry_step:
  "fetchWithRetry_from i url opts n w =
     (if i < n then
        (case attempt_result (abortError w) (net w (reqs w)) of
           Inr v \<Rightarrow> (Fulfilled v, snd (attempt url opts w))
         | Inl e \<Rightarrow>
             if Suc i = n then (Rejected e, snd (attempt url opts w))
             else fetchWithRetry_from (Suc i) url opts n
                    (sleep (1000 * 2 ^ i) (snd (attempt url opts w))))
      else (Fulfilled JUndefined, w))"
  by (subst fetchWithRetry_from.simps)
     (auto simp: attempt_def Let_def split: sum.splits)

lemma retry_induct:
  assumes step: "\<And>i w. (\<And>e. i < n \<Longrightarrow> attempt_result (abortError w) (net w (reqs w)) = Inl e \<Longrightarrow>
                   Suc i \<noteq> n \<Longrightarrow> P (Suc i) (sleep (1000 * 2 ^ i) (snd (attempt url opts w)))) \<Longrightarrow> P i w"
  shows "P i w"
proof (induction "n - i" arbitrary: i w)
  case 0
  show ?case by (rule step) (use 0 in simp)
next
  case (Suc k)
  show ?case
    apply (rule step)
    apply (rule Suc.hyps(1))
    apply (insert Suc.hyps(2))
    apply simp
    done
qed

lemma schedule_shift:
  "0 < m \<Longrightarrow>
   concat (map (\<lambda>j. [Sleep (1000 * 2 ^ (i + j)), Fetch url opts]) [0..<m]) =
   Sleep (1000 * 2 ^ i) # Fetch url opts #
     concat (map (\<lambda>j. [Sleep (1000 * 2 ^ (Suc i + j)), Fetch url opts]) [0..<m - 1])"
proof -
  assume "0 < m"
  then obtain k where m: "m = Suc k" by (cases m) auto
  have "[0..<Suc k] = 0 # map Suc [0..<k]"
    by (simp add: upt_conv_Cons map_Suc_upt del: upt_Suc)
  then show ?thesis unfolding m by (simp add: comp_def del: upt_Suc)
qed

lemma retry_props:
  "net (snd (fetchWithRetry_from i url opts n w)) = net w \<and>
   abortError (snd (fetchWithRetry_from i url opts n w)) = abortError w \<and>
   reqs w \<le> reqs (snd (fetchWithRetry_from i url opts n w)) \<and>
   reqs (snd (fetchWithRetry_from i url opts n w)) \<le> reqs w + (n - i) \<and>
   (i < n \<longrightarrow> reqs w < reqs (snd (fetchWithRetry_from i url opts n w))) \<and>
   trace (snd (fetchWithRetry_from i url opts n w)) =
     trace w @
     (if reqs (snd (fetchWithRetry_from i url opts n w)) = reqs w then []
      else Fetch url opts #
           concat (map (\<lambda>j. [Sleep (1000 * 2 ^ (i + j)), Fetch url opts])
                    [0..<reqs (snd (fetchWithRetry_from i url opts n w)) - reqs w - 1]))"
  (is "?P i w")
proof (induction i w rule: retry_induct[where n = n and url = url and opts = opts])
  case (1 i w)
  show ?case
  proof (cases "i < n")
    case False
    then have "fetchWithRetry_from i url opts n w = (Fulfilled JUndefined, w)"
      by (subst retry_step) simp
    with False show ?thesis by simp
  next
    case True
    show ?thesis
    proof (cases "attempt_result (abortError w) (net w (reqs w))")
      case (Inr v)
      with True have "fetchWithRetry_from i url opts n w = (Fulfilled v, snd (attempt url opts w))"
        by (subst retry_step) simp
      with True show ?thesis by (simp add: attempt_simps)
    next
      case (Inl e)
      show ?thesis
      proof (cases "Suc i = n")
        case True
        with Inl have "fetchWithRetry_from i url opts n w = (Rejected e, snd (attempt url opts w))"
          by (subst retry_step) simp
        with True show ?thesis by (simp add: attempt_simps)
      next
        case False
        let ?w2 = "sleep (1000 * 2 ^ i) (snd (attempt url opts w))"
        let ?r = "fetchWithRetry_from (Suc i) url opts n ?w2"
        have eq: "fetchWithRetry_from i url opts n w = ?r"
          using Inl False True by (subst retry_step) simp
        have IH: "?P (Suc i) ?w2" using "1"[OF True Inl False] .
        have lt: "Suc i < n" using True False by simp
        have r2: "reqs ?w2 = Suc (reqs w)" by (simp add: sleep_simps attempt_simps)
        from IH have "Suc i < n \<longrightarrow> reqs ?w2 < reqs (snd ?r)" by blast
        with lt r2 have gt: "Suc (reqs w) < reqs (snd ?r)" by simp
        from IH have "reqs (snd ?r) \<le> reqs ?w2 + (n - Suc i)" by blast
        with r2 lt have le: "reqs (snd ?r) \<le> reqs w + (n - i)" by simp
        from IH have fr: "net (snd ?r) = net ?w2" "abortError (snd ?r) = abortError ?w2" by blast+
        from IH have tr0: "trace (snd ?r) =
            trace ?w2 @
            (if reqs (snd ?r) = reqs ?w2 then []
             else Fetch url opts #
               concat (map (\<lambda>j. [Sleep (1000 * 2 ^ (Suc i + j)), Fetch url opts])
                    [0..<reqs (snd ?r) - reqs ?w2 - 1]))" by blast
        have t2: "trace ?w2 = trace w @ [Fetch url opts, Sleep (1000 * 2 ^ i)]"
          by (simp add: sleep_simps attempt_simps)
        from tr0 have tr: "trace (snd ?r) = trace ?w2 @
             (Fetch url opts # concat (map (\<lambda>j. [Sleep (1000 * 2 ^ (Suc i + j)), Fetch url opts])
                    [0..<reqs (snd ?r) - Suc (reqs w) - 1]))"
          using gt r2 by simp
        have pos: "0 < reqs (snd ?r) - reqs w - 1" using gt by simp
        have "trace (snd ?r) = trace w @ (Fetch url opts #
               concat (map (\<lambda>j. [Sleep (1000 * 2 ^ (i + j)), Fetch url opts])
                    [0..<reqs (snd ?r) - reqs w - 1]))"
          unfolding tr t2 schedule_shift[OF pos] by simp
        moreover have "net (snd ?r) = net w" "abortError (snd ?r) = abortError w"
          using fr by (simp_all add: sleep_simps attempt_simps)
        moreover note le
        moreover have "reqs w < reqs (snd ?r)" "reqs w \<le> reqs (snd ?r)" "reqs (snd ?r) \<noteq> reqs w"
          using gt by simp_all
        ultimately show ?thesis unfolding eq by simp
      qed
    qed
  qed
qed

lemma retry_all_fail:
  "i < n \<Longrightarrow>
   (\<forall>j < n - i. isl (attempt_result (abortError w) (net w (reqs w + j)))) \<Longrightarrow>
   attempt_result (abortError w) (net w (reqs w + (n - i - 1))) = Inl e \<Longrightarrow>
   fst (fetchWithRetry_from i url opts n w) = Rejected e \<and>
   reqs (snd (fetchWithRetry_from i url opts n w)) = reqs w + (n - i)"
proof (induction i w rule: retry_induct[where n = n and url = url and opts = opts])
  case (1 i w)
  from "1.prems"(1) have "0 < n - i" by simp
  with "1.prems"(2) have "isl (attempt_result (abortError w) (net w (reqs w + 0)))" by blast
  then have "isl (attempt_result (abortError w) (net w (reqs w)))" by simp
  then obtain e0 where e0: "attempt_result (abortError w) (net w (reqs w)) = Inl e0"
    by (cases "attempt_result (abortError w) (net w (reqs w))") auto
  show ?case
  proof (cases "Suc i = n")
    case True
    with "1.prems" e0 have "e0 = e" by simp
    with True e0 have "fetchWithRetry_from i url opts n w = (Rejected e, snd (attempt url opts w))"
      by (subst retry_step) simp
    with True show ?thesis by (simp add: attempt_simps)
  next
    case False
    let ?w2 = "sleep (1000 * 2 ^ i) (snd (attempt url opts w))"
    have eq: "fetchWithRetry_from i url opts n w = fetchWithRetry_from (Suc i) url opts n ?w2"
      using e0 False "1.prems"(1) by (subst retry_step) simp
    have lt: "Suc i < n" using "1.prems"(1) False by simp
    have f: "abortError ?w2 = abortError w" "net ?w2 = net w" "reqs ?w2 = Suc (reqs w)"
      by (simp_all add: sleep_simps attempt_simps)
    have a: "\<forall>j < n - Suc i. isl (attempt_result (abortError ?w2) (net ?w2 (reqs ?w2 + j)))"
    proof (intro allI impI)
      fix j assume "j < n - Suc i"
      then have "Suc j < n - i" by simp
      with "1.prems"(2) have "isl (attempt_result (abortError w) (net w (reqs w + Suc j)))" by blast
      then show "isl (attempt_result (abortError ?w2) (net ?w2 (reqs ?w2 + j)))" by (simp add: f)
    qed
    have "reqs w + (n - i - 1) = reqs ?w2 + (n - Suc i - 1)" using lt by (simp add: f)
    with "1.prems"(3) have b: "attempt_result (abortError ?w2) (net ?w2 (reqs ?w2 + (n - Suc i - 1))) = Inl e"
      by (simp add: f)
    from "1.IH"[OF "1.prems"(1) e0 False lt a b] show ?thesis
      unfolding eq using lt by (simp add: f)
  qed
qed

lemma retry3_first_success:
  assumes "attempt_result (abortError w) (net w (reqs w)) = Inr v"
  shows "fetchWithRetry url opts 3 w = (Fulfilled v, snd (attempt url opts w))"
  unfolding fetchWithRetry_def using assms by (subst retry_step) simp

lemma retry3_all_fail:
  assumes "attempt_result (abortError w) (net w (reqs w)) = Inl e0"
    and "attempt_result (abortError w) (net w (Suc (reqs w))) = Inl e1"
    and "attempt_result (abortError w) (net w (Suc (Suc (reqs w)))) = Inl e2"
  shows "fetchWithRetry url opts 3 w =
           (Rejected e2, snd (attempt url opts (sleep 2000 (snd (attempt url opts
              (sleep 1000 (snd (attempt url opts w))))))))"
proof -
  let ?w1 = "sleep 1000 (snd (attempt url opts w))"
  let ?w2 = "sleep 2000 (snd (attempt url opts ?w1))"
  have f1: "abortError ?w1 = abortError w" "net ?w1 = net w" "reqs ?w1 = Suc (reqs w)"
    by (simp_all add: attempt_simps sleep_simps)
  have f2: "abortError ?w2 = abortError w" "net ?w2 = net w" "reqs ?w2 = Suc (Suc (reqs w))"
    by (simp_all add: attempt_simps sleep_simps)
  have s1: "fetchWithRetry_from 0 url opts 3 w = fetchWithRetry_from (Suc 0) url opts 3 ?w1"
    by (subst retry_step) (simp add: assms)
  have s2: "fetchWithRetry_from (Suc 0) url opts 3 ?w1 = fetchWithRetry_from (Suc (Suc 0)) url opts 3 ?w2"
    by (subst retry_step) (simp add: assms f1)
  have s3: "fetchWithRetry_from (Suc (Suc 0)) url opts 3 ?w2 = (Rejected e2, snd (attempt url opts ?w2))"
    by (subst retry_step) (simp add: assms f2)
  show ?thesis unfolding fetchWithRetry_def s1 s2 s3 ..
qed

text \<open>
  Claim C5.  \<open>fetchWithRetry\<close> issues at most \<open>retries\<close> calls of \<open>fetch()\<close>.  Its trace is
  the calls it issued with, between the call of index \<open>j\<close> and the next one, one wait of
  \<open>1000 * 2 ^ j\<close> ms, and nothing after the last call (1000 then 2000 for three attempts).
  With the default of 3, two failed attempts followed by a successful one return the
  value parsed by the third.  When every one of the \<open>retries\<close> attempts fails, the
  promise is rejected with the error of the last attempt.
\<close>

theorem fetchWithRetry_backoff:
  "reqs (snd (fetchWithRetry url opts n w)) - reqs w \<le> n \<and>
   trace (snd (fetchWithRetry url opts n w)) =
     trace w @
     (if reqs (snd (fetchWithRetry url opts n w)) = reqs w then []
      else Fetch url opts #
           concat (map (\<lambda>j. [Sleep (1000 * 2 ^ j), Fetch url opts])
                    [0..<reqs (snd (fetchWithRetry url opts n w)) - reqs w - 1])) \<and>
   (attempt_result (abortError w) (net w (reqs w)) = Inl e0 \<longrightarrow>
    attempt_result (abortError w) (net w (reqs w + 1)) = Inl e1 \<longrightarrow>
    attempt_result (abortError w) (net w (reqs w + 2)) = Inr v \<longrightarrow>
      fst (fetchWithRetry url opts 3 w) = Fulfilled v \<and>
      reqs (snd (fetchWithRetry url opts 3 w)) = reqs w + 3) \<and>
   (0 < n \<longrightarrow>
    (\<forall>j < n. isl (attempt_result (abortError w) (net w (reqs w + j)))) \<longrightarrow>
    attempt_result (abortError w) (net w (reqs w + (n - 1))) = Inl e \<longrightarrow>
      fst (fetchWithRetry url opts n w) = Rejected e \<and>
      reqs (snd (fetchWithRetry url opts n w)) = reqs w + n)"
proof (intro conjI impI)
  have "reqs (snd (fetchWithRetry_from 0 url opts n w)) \<le> reqs w + (n - 0)"
    using retry_props[of 0 url opts n w] by blast
  then show "reqs (snd (fetchWithRetry url opts n w)) - reqs w \<le> n"
    by (simp add: fetchWithRetry_def)
  show "trace (snd (fetchWithRetry url opts n w)) =
     trace w @
     (if reqs (snd (fetchWithRetry url opts n w)) = reqs w then []
      else Fetch url opts #
           concat (map (\<lambda>j. [Sleep (1000 * 2 ^ j), Fetch url opts])
                    [0..<reqs (snd (fetchWithRetry url opts n w)) - reqs w - 1]))"
    using retry_props[of 0 url opts n w] unfolding fetchWithRetry_def by simp
next
  assume a: "attempt_result (abortError w) (net w (reqs w)) = Inl e0"
     "attempt_result (abortError w) (net w (reqs w + 1)) = Inl e1"
     "attempt_result (abortError w) (net w (reqs w + 2)) = Inr v"
  let ?w1 = "sleep 1000 (snd (attempt url opts w))"
  let ?w2 = "sleep 2000 (snd (attempt url opts ?w1))"
  have f1: "abortError ?w1 = abortError w" "net ?w1 = net w" "reqs ?w1 = reqs w + 1"
    by (simp_all add: attempt_simps sleep_simps)
  have f2: "abortError ?w2 = abortError w" "net ?w2 = net w" "reqs ?w2 = reqs w + 2"
    by (simp_all add: attempt_simps sleep_simps)
  have s1: "fetchWithRetry_from 0 url opts 3 w = fetchWithRetry_from (Suc 0) url opts 3 ?w1"
    by (subst retry_step) (simp add: a)
  have a1: "attempt_result (abortError w) (net w (Suc (reqs w))) = Inl e1"
    using a(2) by simp
  have s2: "fetchWithRetry_from (Suc 0) url opts 3 ?w1 = fetchWithRetry_from (Suc (Suc 0)) url opts 3 ?w2"
    by (subst retry_step) (simp add: a1 f1)
  have a2: "attempt_result (abortError w) (net w (Suc (Suc (reqs w)))) = Inr v"
    using a(3) by (simp add: numeral_2_eq_2)
  have s3: "fetchWithRetry_from (Suc (Suc 0)) url opts 3 ?w2 = (Fulfilled v, snd (attempt url opts ?w2))"
    by (subst retry_step) (simp add: a2 f2)
  have three: "fetchWithRetry url opts 3 w = (Fulfilled v, snd (attempt url opts ?w2))"
    unfolding fetchWithRetry_def s1 s2 s3 ..
  show "fst (fetchWithRetry url opts 3 w) = Fulfilled v" by (simp add: three)
  show "reqs (snd (fetchWithRetry url opts 3 w)) = reqs w + 3"
    by (simp add: three attempt_simps sleep_simps)
next
  assume "0 < n" "\<forall>j < n. isl (attempt_result (abortError w) (net w (reqs w + j)))"
    "attempt_result (abortError w) (net w (reqs w + (n - 1))) = Inl e"
  then have "fst (fetchWithRetry_from 0 url opts n w) = Rejected e \<and>
             reqs (snd (fetchWithRetry_from 0 url opts n w)) = reqs w + (n - 0)"
    by (intro retry_all_fail) simp_all
  then show "fst (fetchWithRetry url opts n w) = Rejected e"
    "reqs (snd (fetchWithRetry url opts n w)) = reqs w + n"
    by (simp_all add: fetchWithRetry_def)
qed

text \<open>
  Claim C5, witness: on a network whose first two exchanges fail, three attempts return
  the payload, and two attempts are rejected after the trace call, wait 1000, call.
\<close>

theorem fetchWithRetry_backoff_witness:
  "attempt_result (abortError example_world) (net example_world (reqs example_world)) = Inl failedToFetch \<and>
   attempt_result (abortError example_world) (net example_world (reqs example_world + 1)) = Inl failedToFetch \<and>
   attempt_result (abortError example_world) (net example_world (reqs example_world + 2)) = Inr example_payload \<and>
   fst (fetchWithRetry example_url example_options 3 example_world) = Fulfilled example_payload \<and>
   reqs (snd (fetchWithRetry example_url example_options 3 example_world)) = 3 \<and>
   fst (fetchWithRetry example_url example_options 2 example_world) = Rejected failedToFetch \<and>
   trace (snd (fetchWithRetry example_url example_options 2 example_world)) =
     [Fetch example_url example_options, Sleep 1000, Fetch example_url example_options]"
proof -
  have a: "attempt_result (abortError example_world) (net example_world (reqs example_world)) = Inl failedToFetch"
    "attempt_result (abortError example_world) (net example_world (reqs example_world + 1)) = Inl failedToFetch"
    "attempt_result (abortError example_world) (net example_world (reqs example_world + 2)) = Inr example_payload"
    by (simp_all add: example_world_def flaky_net_def attempt_result_def)
  have b: "(0::nat) < 2" "\<forall>j<2. isl (attempt_result (abortError example_world) (net example_world (reqs example_world + j)))"
    "attempt_result (abortError example_world) (net example_world (reqs example_world + (2 - 1))) = Inl failedToFetch"
    by (simp_all add: example_world_def flaky_net_def attempt_result_def)
  note T = fetchWithRetry_backoff[of example_url example_options 2 example_world
              failedToFetch failedToFetch example_payload failedToFetch]
  from T a have c3: "fst (fetchWithRetry example_url example_options 3 example_world) = Fulfilled example_payload"
    "reqs (snd (fetchWithRetry example_url example_options 3 example_world)) = reqs example_world + 3"
    by blast+
  from T b have c4: "fst (fetchWithRetry example_url example_options 2 example_world) = Rejected failedToFetch"
    "reqs (snd (fetchWithRetry example_url example_options 2 example_world)) = reqs example_world + 2"
    by blast+
  from T have "trace (snd (fetchWithRetry example_url example_options 2 example_world)) =
     trace example_world @
     (if reqs (snd (fetchWithRetry example_url example_options 2 example_world)) = reqs example_world then []
      else Fetch example_url example_options #
           concat (map (\<lambda>j. [Sleep (1000 * 2 ^ j), Fetch example_url example_options])
                    [0..<reqs (snd (fetchWithRetry example_url example_options 2 example_world)) - reqs example_world - 1]))"
    by blast
  then have tr: "trace (snd (fetchWithRetry example_url example_options 2 example_world)) =
     [Fetch example_url example_options, Sleep 1000, Fetch example_url example_options]"
    unfolding c4(2) by (simp add: example_world_def)
  have r0: "reqs example_world = 0" by (simp add: example_world_def)
  show ?thesis using a c3 c4(1) tr by (simp add: r0)
qed

subsection \<open>The offline store\<close>

lemma getOfflineData_frame:
  "reqs (snd (getOfflineData this w key)) = reqs w \<and> now (snd (getOfflineData this w key)) = now w"
  by (simp add: getOfflineData_def open_db_def split: option.splits sum.splits)

lemma saveOfflineData_frame:
  "reqs (snd (saveOfflineData this w key d)) = reqs w \<and> now (snd (saveOfflineData this w key d)) = now w"
  by (simp add: saveOfflineData_def open_db_def split: option.splits sum.splits)

lemma getOfflineData_store:
  "hasIndexedDB w \<Longrightarrow> openError w = None \<Longrightarrow> \<not> getFails w \<Longrightarrow>
   db w = Some (Database (Some store)) \<Longrightarrow>
   getOfflineData this w key =
     (Fulfilled (case store key of
                   None \<Rightarrow> JNull
                 | Some r \<Rightarrow> if now w - timestamp r < maxOfflineAge then data r else JNull), w)"
proof -
  assume a: "hasIndexedDB w" "openError w = None" "\<not> getFails w" "db w = Some (Database (Some store))"
  then have "w\<lparr>db := Some (Database (Some store))\<rparr> = w" by simp
  with a show ?thesis
    by (simp add: getOfflineData_def open_db_def split: option.splits)
qed

text \<open>
  Claim C8.  After \<open>saveOfflineData\<close> has stored a payload for a key at time \<open>now w\<close>, a
  later \<open>getOfflineData\<close> on the same database (IndexedDB present, open and read
  succeeding) returns that payload while \<open>now - timestamp\<close> is below 7 days
  (604800000 ms) and \<open>null\<close> from then on; the read leaves the world as it was, so the
  record is still in the store.
\<close>

theorem offline_record_roundtrip:
  assumes "hasIndexedDB w" and "saveOfflineData this w key d = (Fulfilled (), w1)"
    and "hasIndexedDB w2" and "openError w2 = None" and "\<not> getFails w2" and "db w2 = db w1"
  shows "getOfflineData this2 w2 key =
           (Fulfilled (if now w2 - now w < 604800000 then d else JNull), w2) \<and>
         (\<exists>store r. db w2 = Some (Database (Some store)) \<and> store key = Some r \<and>
                    data r = d \<and> timestamp r = now w)"
proof -
  from assms(1,2) obtain store where
    w1: "db w1 = Some (Database (Some (store(key \<mapsto> \<lparr>data = d, timestamp = now w, plz = key\<rparr>))))"
    by (auto simp: saveOfflineData_def open_db_def split: option.splits sum.splits if_splits)
  have "w2\<lparr>db := Some (Database (Some (store(key \<mapsto> \<lparr>data = d, timestamp = now w, plz = key\<rparr>))))\<rparr> = w2"
    using assms(6) w1 by simp
  then show ?thesis using assms(3-6) w1
    by (simp add: getOfflineData_def open_db_def maxOfflineAge_def)
qed

text \<open>
  Claim C8, witness: a payload saved in a fresh database is read back one millisecond
  before the 7 days are over, and \<open>null\<close> is read at 7 days, the world unchanged.
\<close>

theorem offline_record_roundtrip_witness:
  "hasIndexedDB example_world \<and>
   fst (saveOfflineData example_fetcher example_world example_key example_payload) = Fulfilled () \<and>
   fst (getOfflineData example_fetcher
          (snd (saveOfflineData example_fetcher example_world example_key example_payload)
             \<lparr>now := now example_world + 604799999\<rparr>) example_key) = Fulfilled example_payload \<and>
   getOfflineData example_fetcher
          (snd (saveOfflineData example_fetcher example_world example_key example_payload)
             \<lparr>now := now example_world + 604800000\<rparr>) example_key =
     (Fulfilled JNull,
      snd (saveOfflineData example_fetcher example_world example_key example_payload)
             \<lparr>now := now example_world + 604800000\<rparr>)"
proof -
  let ?w1 = "snd (saveOfflineData example_fetcher example_world example_key example_payload)"
  have a: "hasIndexedDB example_world" by (simp add: example_world_def)
  have b: "saveOfflineData example_fetcher example_world example_key example_payload = (Fulfilled (), ?w1)"
    by (simp add: saveOfflineData_def open_db_def example_world_def)
  have c: "hasIndexedDB (?w1\<lparr>now := t\<rparr>)" "openError (?w1\<lparr>now := t\<rparr>) = None"
          "\<not> getFails (?w1\<lparr>now := t\<rparr>)" "db (?w1\<lparr>now := t\<rparr>) = db ?w1" for t
    by (simp_all add: saveOfflineData_def open_db_def example_world_def)
  note c1 = c[where t = "now example_world + 604799999"]
  note c2 = c[where t = "now example_world + 604800000"]
  from offline_record_roundtrip[OF a b c1, where ?this2.0 = example_fetcher]
  have 1: "fst (getOfflineData example_fetcher (?w1\<lparr>now := now example_world + 604799999\<rparr>) example_key)
             = Fulfilled example_payload"
    by simp
  from offline_record_roundtrip[OF a b c2, where ?this2.0 = example_fetcher]
  have 2: "getOfflineData example_fetcher (?w1\<lparr>now := now example_world + 604800000\<rparr>) example_key =
     (Fulfilled JNull, ?w1\<lparr>now := now example_world + 604800000\<rparr>)"
    by simp
  have b': "fst (saveOfflineData example_fetcher example_world example_key example_payload) = Fulfilled ()"
    by (simp add: saveOfflineData_def open_db_def example_world_def)
  show ?thesis using a b' 1 2 by blast
qed

subsection \<open>\<open>fetchWaterAnalysis\<close>\<close>

lemma source_tagged: "get_prop (JObj (tagged d t)) (js ''source'') = JStr t"
  by (simp add: get_prop_def tagged_def)

lemma source_offline:
  "get_prop (JObj ((tagged d t)(js ''offline'' \<mapsto> b))) (js ''source'') = JStr t"
  by (simp add: get_prop_def tagged_def js_def)

lemma source_fallback:
  "get_prop (getFallbackData this w key) (js ''source'') = JStr (js ''fallback_data'')"
  by (simp add: getFallbackData_def get_prop_def js_def Let_def)

lemma tags_distinct:
  "js ''memory_cache'' \<noteq> js ''offline_storage''" "js ''memory_cache'' \<noteq> js ''api''"
  "js ''memory_cache'' \<noteq> js ''fallback_data''" "js ''offline_storage'' \<noteq> js ''api''"
  "js ''offline_storage'' \<noteq> js ''fallback_data''" "js ''api'' \<noteq> js ''fallback_data''"
  by (simp_all add: js_def)

lemma getFallbackData_any: "getFallbackData this w key = getFallbackData this' w' key"
  by (simp add: getFallbackData_def guessCityFromPLZ_def)

lemma fetchWaterAnalysis_hit:
  "memory_hit this w key fr c \<Longrightarrow>
   fetchWaterAnalysis this w key fr = (Fulfilled (JObj (tagged (data c) (js ''memory_cache''))), this, w)"
  by (simp add: fetchWaterAnalysis_def)

lemma fetchWaterAnalysis_miss:
  "\<not> (\<exists>c. memory_hit this w key fr c) \<Longrightarrow>
   fetchWaterAnalysis this w key fr = fetchUncached this w key"
  by (auto simp: fetchWaterAnalysis_def split: option.splits)

lemma fetchWaterAnalysis_sources:
  assumes "fetchWaterAnalysis this w key fr = (Fulfilled v, this1, w1)"
  shows "(\<exists>c. memory_hit this w key fr c \<and> v = JObj (tagged (data c) (js ''memory_cache'')) \<and>
              this1 = this \<and> w1 = w) \<or>
         (\<exists>d. \<not> (\<exists>c. memory_hit this w key fr c) \<and> \<not> onLine w \<and>
              getOfflineData this w key = (Fulfilled d, w1) \<and> truthy d \<and>
              v = JObj ((tagged d (js ''offline_storage''))(js ''offline'' \<mapsto> JBool True)) \<and>
              this1 = this) \<or>
         (\<exists>d wa. \<not> (\<exists>c. memory_hit this w key fr c) \<and> onLine w \<and>
              fetchWithRetry (analysis_url this) (analysis_options key) 3 w = (Fulfilled d, wa) \<and>
              this1 = this\<lparr>cache := (cache this)(cacheKey key \<mapsto> \<lparr>data = d, timestamp = now wa\<rparr>)\<rparr> \<and>
              saveOfflineData this1 wa key d = (Fulfilled (), w1) \<and>
              v = JObj (tagged d (js ''api''))) \<or>
         (\<not> (\<exists>c. memory_hit this w key fr c) \<and> onLine w \<and> v = getFallbackData this w key)"
proof (cases "\<exists>c. memory_hit this w key fr c")
  case True
  then obtain c where c: "memory_hit this w key fr c" by blast
  from fetchWaterAnalysis_hit[OF c] assms c show ?thesis by auto
next
  case False
  then have u: "fetchUncached this w key = (Fulfilled v, this1, w1)"
    using assms fetchWaterAnalysis_miss[OF False] by simp
  show ?thesis
  proof (cases "onLine w")
    case off: False
    obtain p wo where g: "getOfflineData this w key = (p, wo)" by (cases "getOfflineData this w key")
    from u off g have "\<exists>d. p = Fulfilled d \<and> truthy d \<and> wo = w1 \<and> this1 = this \<and>
        v = JObj ((tagged d (js ''offline_storage''))(js ''offline'' \<mapsto> JBool True))"
      by (cases p) (auto simp: fetchUncached_def split: if_splits)
    with False off g show ?thesis by auto
  next
    case on: True
    obtain p wa where r: "fetchWithRetry (analysis_url this) (analysis_options key) 3 w = (p, wa)"
      by (cases "fetchWithRetry (analysis_url this) (analysis_options key) 3 w")
    show ?thesis
    proof (cases p)
      case Pending
      with u on r show ?thesis by (simp add: fetchUncached_def)
    next
      case (Rejected e)
      with u on r have "v = getFallbackData this wa key"
        by (auto simp: fetchUncached_def catch_fetch_def split: if_splits)
      then have "v = getFallbackData this w key" using getFallbackData_any by simp
      with False on show ?thesis by blast
    next
      case (Fulfilled d)
      let ?this1 = "this\<lparr>cache := (cache this)(cacheKey key \<mapsto> \<lparr>data = d, timestamp = now wa\<rparr>)\<rparr>"
      obtain q w2 where s: "saveOfflineData ?this1 wa key d = (q, w2)"
        by (cases "saveOfflineData ?this1 wa key d")
      show ?thesis
      proof (cases q)
        case Pending
        with u on r s Fulfilled show ?thesis by (simp add: fetchUncached_def Let_def)
      next
        case (Rejected e)
        with u on r s Fulfilled have "v = getFallbackData ?this1 w2 key"
          by (auto simp: fetchUncached_def Let_def catch_fetch_def split: if_splits)
        then have "v = getFallbackData this w key" using getFallbackData_any by simp
        with False on show ?thesis by blast
      next
        case f2: (Fulfilled x)
        with u on r s Fulfilled have "v = JObj (tagged d (js ''api'')) \<and> this1 = ?this1 \<and> w1 = w2"
          by (simp add: fetchUncached_def Let_def)
        with False on r s Fulfilled f2 show ?thesis by auto
      qed
    qed
  qed
qed

lemma fetchWaterAnalysis_reqs:
  "(reqs (snd (snd (fetchWaterAnalysis this w key fr))) \<noteq> reqs w \<longleftrightarrow>
      onLine w \<and> \<not> (\<exists>c. memory_hit this w key fr c)) \<and>
   reqs w \<le> reqs (snd (snd (fetchWaterAnalysis this w key fr))) \<and>
   reqs (snd (snd (fetchWaterAnalysis this w key fr))) \<le> reqs w + 3"
proof (cases "\<exists>c. memory_hit this w key fr c")
  case True
  then obtain c where c: "memory_hit this w key fr c" by blast
  from fetchWaterAnalysis_hit[OF c] True show ?thesis by simp
next
  case False
  then have u: "fetchWaterAnalysis this w key fr = fetchUncached this w key"
    by (rule fetchWaterAnalysis_miss)
  show ?thesis
  proof (cases "onLine w")
    case off: False
    obtain p wo where g: "getOfflineData this w key = (p, wo)" by (cases "getOfflineData this w key")
    have "reqs wo = reqs w" using getOfflineData_frame[of this w key] g by simp
    with off g have "reqs (snd (snd (fetchUncached this w key))) = reqs w"
      by (cases p) (simp_all add: fetchUncached_def)
    with off show ?thesis unfolding u by simp
  next
    case on: True
    obtain p wa where r: "fetchWithRetry (analysis_url this) (analysis_options key) 3 w = (p, wa)"
      by (cases "fetchWithRetry (analysis_url this) (analysis_options key) 3 w")
    have b: "reqs w < reqs wa \<and> reqs wa \<le> reqs w + 3"
      using retry_props[of 0 "analysis_url this" "analysis_options key" 3 w] r
      unfolding fetchWithRetry_def by simp
    have "reqs (snd (snd (fetchUncached this w key))) = reqs wa"
    proof (cases p)
      case (Fulfilled d)
      let ?this1 = "this\<lparr>cache := (cache this)(cacheKey key \<mapsto> \<lparr>data = d, timestamp = now wa\<rparr>)\<rparr>"
      obtain q w2 where s: "saveOfflineData ?this1 wa key d = (q, w2)"
        by (cases "saveOfflineData ?this1 wa key d")
      have "reqs w2 = reqs wa" using saveOfflineData_frame[of ?this1 wa key d] s by simp
      with on r s Fulfilled show ?thesis
        by (cases q) (simp_all add: fetchUncached_def Let_def)
    qed (use on r in \<open>simp_all add: fetchUncached_def\<close>)
    with b on False show ?thesis unfolding u by simp
  qed
qed

lemma fetchUncached_cache_irrelevant:
  "fst (fetchUncached (this\<lparr>cache := c'\<rparr>) w key) = fst (fetchUncached this w key) \<and>
   snd (snd (fetchUncached (this\<lparr>cache := c'\<rparr>) w key)) = snd (snd (fetchUncached this w key))"
proof -
  define fb where "fb = (\<lambda>k. getFallbackData this w k)"
  have g: "getFallbackData t' w' k = fb k" for t' w' k
    unfolding fb_def by (rule getFallbackData_any)
  define sv where "sv = saveOfflineData this"
  have s: "saveOfflineData t' = sv" for t'
    unfolding sv_def by (intro ext) (simp add: saveOfflineData_def)
  define gt where "gt = getOfflineData this"
  have o: "getOfflineData t' = gt" for t'
    unfolding gt_def by (intro ext) (simp add: getOfflineData_def)
  show ?thesis
  proof (cases "onLine w")
    case False
    then show ?thesis
      by (simp add: fetchUncached_def o split: prod.splits promise.splits)
  next
    case True
    obtain p wa where r: "fetchWithRetry (analysis_url this) (analysis_options key) 3 w = (p, wa)"
      by (cases "fetchWithRetry (analysis_url this) (analysis_options key) 3 w")
    show ?thesis
    proof (cases p)
      case (Fulfilled d)
      obtain q w2 where q: "sv wa key d = (q, w2)" by (cases "sv wa key d")
      from True r Fulfilled q show ?thesis
        by (cases q) (simp_all add: fetchUncached_def Let_def s catch_fetch_def g)
    qed (use True r in \<open>simp_all add: fetchUncached_def catch_fetch_def g\<close>)
  qed
qed

lemma source_cases:
  assumes "fetchWaterAnalysis this w key fr = (Fulfilled v, this1, w1)"
    and "get_prop v (js ''source'') = JStr tag"
  shows "(tag = js ''memory_cache'' \<longrightarrow>
            (\<exists>c. memory_hit this w key fr c \<and> v = JObj (tagged (data c) (js ''memory_cache'')))) \<and>
         (tag = js ''api'' \<longrightarrow>
            (\<exists>d wa. fetchWithRetry (analysis_url this) (analysis_options key) 3 w = (Fulfilled d, wa) \<and>
               this1 = this\<lparr>cache := (cache this)(cacheKey key \<mapsto> \<lparr>data = d, timestamp = now wa\<rparr>)\<rparr> \<and>
               v = JObj (tagged d (js ''api'')))) \<and>
         (tag = js ''fallback_data'' \<longrightarrow> v = getFallbackData this w key)"
proof -
  note d = tags_distinct tags_distinct[symmetric]
  from fetchWaterAnalysis_sources[OF assms(1)]
  consider
    (memory) c where "memory_hit this w key fr c" "v = JObj (tagged (data c) (js ''memory_cache''))"
  | (offline) d where "v = JObj ((tagged d (js ''offline_storage''))(js ''offline'' \<mapsto> JBool True))"
  | (api) d and wa :: world where
      "fetchWithRetry (analysis_url this) (analysis_options key) 3 w = (Fulfilled d, wa)"
      "this1 = this\<lparr>cache := (cache this)(cacheKey key \<mapsto> \<lparr>data = d, timestamp = now wa\<rparr>)\<rparr>"
      "v = JObj (tagged d (js ''api''))"
  | (fallback) "v = getFallbackData this w key"
    by blast
  then show ?thesis
  proof cases
    case memory
    have "tag = js ''memory_cache''" using assms(2) memory(2) by (simp add: source_tagged)
    with memory show ?thesis using d by blast
  next
    case offline
    have "tag = js ''offline_storage''" using assms(2) offline by (simp add: source_offline)
    then show ?thesis using d by simp
  next
    case api
    have "tag = js ''api''" using assms(2) api(3) by (simp add: source_tagged)
    with api show ?thesis using d by blast
  next
    case fallback
    have "tag = js ''fallback_data''" using assms(2) fallback by (simp add: source_fallback)
    with fallback show ?thesis using d by simp
  qed
qed

lemma fetch_when_unreachable:
  assumes "onLine w" and "\<not> (\<exists>c. memory_hit this w key False c)"
    and "\<forall>n. attempt_result (abortError w) (net w n) = Inl failedToFetch"
  shows "fetchWaterAnalysis this w key False =
           (Fulfilled (getFallbackData this w key), this,
            snd (attempt (analysis_url this) (analysis_options key)
              (sleep 2000 (snd (attempt (analysis_url this) (analysis_options key)
                (sleep 1000 (snd (attempt (analysis_url this) (analysis_options key) w))))))))"
proof -
  have r: "fetchWithRetry (analysis_url this) (analysis_options key) 3 w =
           (Rejected failedToFetch,
            snd (attempt (analysis_url this) (analysis_options key)
              (sleep 2000 (snd (attempt (analysis_url this) (analysis_options key)
                (sleep 1000 (snd (attempt (analysis_url this) (analysis_options key) w))))))))"
    using assms(3) by (intro retry3_all_fail) simp_all
  have i: "str_includes (message failedToFetch) (js ''Failed to fetch'')"
    by (simp add: failedToFetch_def str_includes_def)
  have "fetchUncached this w key =
           (Fulfilled (getFallbackData this w key), this,
            snd (attempt (analysis_url this) (analysis_options key)
              (sleep 2000 (snd (attempt (analysis_url this) (analysis_options key)
                (sleep 1000 (snd (attempt (analysis_url this) (analysis_options key) w))))))))"
    using assms(1) i getFallbackData_any[of this _ key this w]
    by (simp add: fetchUncached_def r catch_fetch_def)
  then show ?thesis using fetchWaterAnalysis_miss[OF assms(2)] by simp
qed

lemma fetch_first_success:
  assumes "onLine w" and "\<not> (\<exists>c. memory_hit this w key fr c)"
    and "attempt_result (abortError w) (net w (reqs w)) = Inr d"
  shows "fetchWaterAnalysis this w key fr =
           (case saveOfflineData
                   (this\<lparr>cache := (cache this)(cacheKey key \<mapsto>
                       \<lparr>data = d, timestamp = now (snd (attempt (analysis_url this) (analysis_options key) w))\<rparr>)\<rparr>)
                   (snd (attempt (analysis_url this) (analysis_options key) w)) key d of
              (Fulfilled u, w2) \<Rightarrow>
                (Fulfilled (JObj (tagged d (js ''api''))),
                 this\<lparr>cache := (cache this)(cacheKey key \<mapsto>
                       \<lparr>data = d, timestamp = now (snd (attempt (analysis_url this) (analysis_options key) w))\<rparr>)\<rparr>, w2)
            | (Rejected e, w2) \<Rightarrow>
                (catch_fetch
                   (this\<lparr>cache := (cache this)(cacheKey key \<mapsto>
                       \<lparr>data = d, timestamp = now (snd (attempt (analysis_url this) (analysis_options key) w))\<rparr>)\<rparr>)
                   w2 key e,
                 this\<lparr>cache := (cache this)(cacheKey key \<mapsto>
                       \<lparr>data = d, timestamp = now (snd (attempt (analysis_url this) (analysis_options key) w))\<rparr>)\<rparr>, w2)
            | (Pending, w2) \<Rightarrow>
                (Pending,
                 this\<lparr>cache := (cache this)(cacheKey key \<mapsto>
                       \<lparr>data = d, timestamp = now (snd (attempt (analysis_url this) (analysis_options key) w))\<rparr>)\<rparr>, w2))"
  unfolding fetchWaterAnalysis_miss[OF assms(2)]
  using assms(1)
  by (simp add: fetchUncached_def retry3_first_success[OF assms(3)] Let_def)

lemma example_fetcher_simps:
  "cache example_fetcher = Map.empty" "cacheDuration example_fetcher = 300000"
  "apiBase example_fetcher = js ''/api''"
  by (simp_all add: example_fetcher_def DataFetcher_def)

lemma unreachable_world_simps:
  "onLine unreachable_world" "reqs unreachable_world = 0" "now unreachable_world = 1700000000000"
  "net unreachable_world = down_net" "abortError unreachable_world = Error (js ''The user aborted a request.'')"
  by (simp_all add: unreachable_world_def example_world_def)

lemma down_net_fails: "attempt_result aborted (down_net n) = Inl failedToFetch"
  by (simp add: attempt_result_def down_net_def)

lemma steady_net_answers: "attempt_result aborted (steady_net n) = Inr example_payload"
  by (simp add: attempt_result_def steady_net_def)

lemma first_call_eq:
  "first_call =
     (Fulfilled (getFallbackData example_fetcher unreachable_world example_key), example_fetcher,
      snd (attempt (analysis_url example_fetcher) (analysis_options example_key)
        (sleep 2000 (snd (attempt (analysis_url example_fetcher) (analysis_options example_key)
          (sleep 1000 (snd (attempt (analysis_url example_fetcher) (analysis_options example_key)
             unreachable_world)))))))) "
  unfolding first_call_def
  by (rule fetch_when_unreachable)
     (simp_all add: unreachable_world_simps example_fetcher_simps down_net_fails)

lemma took_steady_net: "took (steady_net n) = 120"
  by (simp add: steady_net_def)

lemma cached_call_eq:
  "fst cached_call = Fulfilled (JObj (tagged example_payload (js ''api'')))"
  "fst (snd cached_call) =
     example_fetcher\<lparr>cache := [cacheKey example_key \<mapsto> \<lparr>data = example_payload, timestamp = 1700000000120\<rparr>]\<rparr>"
  "now (snd (snd cached_call)) = 1700000000120"
  "reqs (snd (snd cached_call)) = 1"
proof -
  have E: "cached_call =
     (Fulfilled (JObj (tagged example_payload (js ''api''))),
      example_fetcher\<lparr>cache := [cacheKey example_key \<mapsto> \<lparr>data = example_payload, timestamp = 1700000000120\<rparr>]\<rparr>,
      (snd (attempt (analysis_url example_fetcher) (analysis_options example_key) reachable_world))
        \<lparr>db := Some (Database (Some [example_key \<mapsto>
                \<lparr>data = example_payload, timestamp = 1700000000120, plz = example_key\<rparr>]))\<rparr>)"
    unfolding cached_call_def
    by (subst fetch_first_success[where d = example_payload])
       (simp_all add: reachable_world_def example_world_def steady_net_answers example_fetcher_simps
          saveOfflineData_def open_db_def attempt_frame took_steady_net)
  show "fst cached_call = Fulfilled (JObj (tagged example_payload (js ''api'')))"
    "fst (snd cached_call) =
     example_fetcher\<lparr>cache := [cacheKey example_key \<mapsto> \<lparr>data = example_payload, timestamp = 1700000000120\<rparr>]\<rparr>"
    "now (snd (snd cached_call)) = 1700000000120"
    "reqs (snd (snd cached_call)) = 1"
    unfolding E
    by (simp_all add: attempt_frame attempt_simps reachable_world_def example_world_def took_steady_net)
qed

lemma warm_fetcher_simps:
  "cache warm_fetcher (cacheKey example_key) = Some fresh_entry"
  "cacheDuration warm_fetcher = 300000"
  "timestamp fresh_entry = 1699999999000" "data fresh_entry = example_payload"
  by (simp_all add: warm_fetcher_def fresh_entry_def example_fetcher_simps)

text \<open>
  Claim C1, as amended.  (1) Without \<open>forceRefresh\<close>, an entry of the memory cache younger
  than the TTL is returned tagged \<open>memory_cache\<close>, the fetcher and the world unchanged.  A
  call that returned a result tagged \<open>api\<close> has left that payload in the memory cache, and
  any later call without \<open>forceRefresh\<close> made while the entry is younger than the TTL
  returns it tagged \<open>memory_cache\<close> with the world unchanged.  (2) Otherwise, offline and
  with the object store of the offline database readable, a record of the key that is
  younger than 7 days and whose payload is truthy is returned tagged \<open>offline_storage\<close>
  with \<open>offline: true\<close>, and the call is rejected with the offline-unavailable error when
  there is no such record; it is rejected with that error too when IndexedDB is missing or
  cannot be opened.  (3) \<open>fetch()\<close> is called exactly when the device is online and
  step 1 did not return, and then at most 3 times.
\<close>

theorem fetchWaterAnalysis_resolution_order:
  "(\<forall>c. memory_hit this w key fr c \<longrightarrow>
        fetchWaterAnalysis this w key fr =
          (Fulfilled (JObj (tagged (data c) (js ''memory_cache''))), this, w)) \<and>
   (\<forall>v this1 w1.
        fetchWaterAnalysis this w key fr = (Fulfilled v, this1, w1) \<and>
        get_prop v (js ''source'') = JStr (js ''api'') \<longrightarrow>
        (\<exists>c. cache this1 (cacheKey key) = Some c \<and> v = JObj (tagged (data c) (js ''api'')) \<and>
             (\<forall>w2. now w2 - timestamp c < cacheDuration this1 \<longrightarrow>
                fetchWaterAnalysis this1 w2 key False =
                  (Fulfilled (JObj (tagged (data c) (js ''memory_cache''))), this1, w2)))) \<and>
   (\<forall>store.
        \<not> (\<exists>c. memory_hit this w key fr c) \<and> \<not> onLine w \<and> hasIndexedDB w \<and>
        openError w = None \<and> \<not> getFails w \<and> db w = Some (Database (Some store)) \<longrightarrow>
        fetchWaterAnalysis this w key fr =
          (case store key of
             None \<Rightarrow> (Rejected offlineUnavailable, this, w)
           | Some r \<Rightarrow>
               if now w - timestamp r < 604800000 \<and> truthy (data r)
               then (Fulfilled (JObj ((tagged (data r) (js ''offline_storage''))
                                       (js ''offline'' \<mapsto> JBool True))), this, w)
               else (Rejected offlineUnavailable, this, w))) \<and>
   (\<not> (\<exists>c. memory_hit this w key fr c) \<and> \<not> onLine w \<and>
        (\<not> hasIndexedDB w \<or> openError w \<noteq> None) \<longrightarrow>
        fetchWaterAnalysis this w key fr = (Rejected offlineUnavailable, this, w)) \<and>
   ((reqs (snd (snd (fetchWaterAnalysis this w key fr))) \<noteq> reqs w) =
      (onLine w \<and> \<not> (\<exists>c. memory_hit this w key fr c))) \<and>
   reqs (snd (snd (fetchWaterAnalysis this w key fr))) \<le> reqs w + 3"
proof (intro conjI allI impI)
  fix c assume "memory_hit this w key fr c"
  then show "fetchWaterAnalysis this w key fr =
          (Fulfilled (JObj (tagged (data c) (js ''memory_cache''))), this, w)"
    by (rule fetchWaterAnalysis_hit)
next
  fix v this1 w1
  assume a: "fetchWaterAnalysis this w key fr = (Fulfilled v, this1, w1) \<and>
        get_prop v (js ''source'') = JStr (js ''api'')"
  from source_cases[OF conjunct1[OF a] conjunct2[OF a]]
  have "\<exists>d (wa :: world).
          this1 = this\<lparr>cache := (cache this)(cacheKey key \<mapsto> \<lparr>data = d, timestamp = now wa\<rparr>)\<rparr> \<and>
          v = JObj (tagged d (js ''api''))"
    by blast
  then obtain d and wa :: world where
    t: "this1 = this\<lparr>cache := (cache this)(cacheKey key \<mapsto> \<lparr>data = d, timestamp = now wa\<rparr>)\<rparr>"
    and v: "v = JObj (tagged d (js ''api''))"
    by blast
  let ?c = "\<lparr>data = d, timestamp = now wa\<rparr>"
  have 1: "cache this1 (cacheKey key) = Some ?c" by (simp add: t)
  have 2: "v = JObj (tagged (data ?c) (js ''api''))" by (simp add: v)
  have 3: "fetchWaterAnalysis this1 w2 key False =
             (Fulfilled (JObj (tagged (data ?c) (js ''memory_cache''))), this1, w2)"
    if "now w2 - timestamp ?c < cacheDuration this1" for w2
    using that 1 by (intro fetchWaterAnalysis_hit) simp
  show "\<exists>c. cache this1 (cacheKey key) = Some c \<and> v = JObj (tagged (data c) (js ''api'')) \<and>
             (\<forall>w2. now w2 - timestamp c < cacheDuration this1 \<longrightarrow>
                fetchWaterAnalysis this1 w2 key False =
                  (Fulfilled (JObj (tagged (data c) (js ''memory_cache''))), this1, w2))"
    using 1 2 3 by blast
next
  fix store
  assume a: "\<not> (\<exists>c. memory_hit this w key fr c) \<and> \<not> onLine w \<and> hasIndexedDB w \<and>
        openError w = None \<and> \<not> getFails w \<and> db w = Some (Database (Some store))"
  then have "fetchWaterAnalysis this w key fr = fetchUncached this w key"
    using fetchWaterAnalysis_miss by blast
  moreover have "getOfflineData this w key =
     (Fulfilled (case store key of
                   None \<Rightarrow> JNull
                 | Some r \<Rightarrow> if now w - timestamp r < maxOfflineAge then data r else JNull), w)"
    using a by (intro getOfflineData_store) simp_all
  ultimately show "fetchWaterAnalysis this w key fr =
          (case store key of
             None \<Rightarrow> (Rejected offlineUnavailable, this, w)
           | Some r \<Rightarrow>
               if now w - timestamp r < 604800000 \<and> truthy (data r)
               then (Fulfilled (JObj ((tagged (data r) (js ''offline_storage''))
                                       (js ''offline'' \<mapsto> JBool True))), this, w)
               else (Rejected offlineUnavailable, this, w))"
    using a by (simp add: fetchUncached_def maxOfflineAge_def split: option.splits)
next
  assume a: "\<not> (\<exists>c. memory_hit this w key fr c) \<and> \<not> onLine w \<and>
        (\<not> hasIndexedDB w \<or> openError w \<noteq> None)"
  then have "fetchWaterAnalysis this w key fr = fetchUncached this w key"
    using fetchWaterAnalysis_miss by blast
  moreover have "getOfflineData this w key = (Fulfilled JNull, w)"
    using a by (auto simp: getOfflineData_def open_db_def)
  ultimately show "fetchWaterAnalysis this w key fr = (Rejected offlineUnavailable, this, w)"
    using a by (simp add: fetchUncached_def)
next
  show "(reqs (snd (snd (fetchWaterAnalysis this w key fr))) \<noteq> reqs w) =
      (onLine w \<and> \<not> (\<exists>c. memory_hit this w key fr c))"
    using fetchWaterAnalysis_reqs[of this w key fr] by blast
  show "reqs (snd (snd (fetchWaterAnalysis this w key fr))) \<le> reqs w + 3"
    using fetchWaterAnalysis_reqs[of this w key fr] by blast
qed

text \<open>
  Claim C1, witness: a hit on a warm cache; a fetch from the reachable network followed by
  a call 299999 ms after the entry was stored; an offline call with a stored record.
\<close>

theorem fetchWaterAnalysis_resolution_order_witness:
  "memory_hit warm_fetcher example_world example_key False fresh_entry \<and>
   fetchWaterAnalysis warm_fetcher example_world example_key False =
     (Fulfilled (JObj (tagged example_payload (js ''memory_cache''))), warm_fetcher, example_world) \<and>
   cached_call = (Fulfilled (JObj (tagged example_payload (js ''api''))), fst (snd cached_call), snd (snd cached_call)) \<and>
   get_prop (JObj (tagged example_payload (js ''api''))) (js ''source'') = JStr (js ''api'') \<and>
   fetchWaterAnalysis (fst (snd cached_call)) (snd (snd cached_call)\<lparr>now := 1700000300119\<rparr>) example_key False =
     (Fulfilled (JObj (tagged example_payload (js ''memory_cache''))), fst (snd cached_call),
      snd (snd cached_call)\<lparr>now := 1700000300119\<rparr>) \<and>
   fetchWaterAnalysis example_fetcher stored_world example_key False =
     (Fulfilled (JObj ((tagged example_payload (js ''offline_storage''))(js ''offline'' \<mapsto> JBool True))),
      example_fetcher, stored_world) \<and>
   reqs (snd (snd cached_call)) \<noteq> reqs reachable_world"
proof -
  have h: "memory_hit warm_fetcher example_world example_key False fresh_entry"
    by (simp add: warm_fetcher_simps example_world_def)
  with fetchWaterAnalysis_resolution_order[where this = warm_fetcher and w = example_world and key = example_key and fr = False]
  have c1: "fetchWaterAnalysis warm_fetcher example_world example_key False =
     (Fulfilled (JObj (tagged example_payload (js ''memory_cache''))), warm_fetcher, example_world)"
    by (simp add: warm_fetcher_simps)
  have e: "cached_call = (Fulfilled (JObj (tagged example_payload (js ''api''))), fst (snd cached_call), snd (snd cached_call))"
    by (metis cached_call_eq(1) prod.collapse)
  have s: "get_prop (JObj (tagged example_payload (js ''api''))) (js ''source'') = JStr (js ''api'')"
    by (rule source_tagged)
  note T = fetchWaterAnalysis_resolution_order[where this = example_fetcher and w = reachable_world and key = example_key and fr = False]
  from T have "\<forall>v this1 w1.
        fetchWaterAnalysis example_fetcher reachable_world example_key False = (Fulfilled v, this1, w1) \<and>
        get_prop v (js ''source'') = JStr (js ''api'') \<longrightarrow>
        (\<exists>c. cache this1 (cacheKey example_key) = Some c \<and> v = JObj (tagged (data c) (js ''api'')) \<and>
             (\<forall>w2. now w2 - timestamp c < cacheDuration this1 \<longrightarrow>
                fetchWaterAnalysis this1 w2 example_key False =
                  (Fulfilled (JObj (tagged (data c) (js ''memory_cache''))), this1, w2)))"
    by blast
  with e s obtain c where
    c: "cache (fst (snd cached_call)) (cacheKey example_key) = Some c"
    and w2: "\<forall>w2. now w2 - timestamp c < cacheDuration (fst (snd cached_call)) \<longrightarrow>
                fetchWaterAnalysis (fst (snd cached_call)) w2 example_key False =
                  (Fulfilled (JObj (tagged (data c) (js ''memory_cache''))), fst (snd cached_call), w2)"
    unfolding cached_call_def by blast
  have cv: "c = \<lparr>data = example_payload, timestamp = 1700000000120\<rparr>"
    using c by (simp add: cached_call_eq(2))
  have "now (snd (snd cached_call)\<lparr>now := 1700000300119\<rparr>) - timestamp c
          < cacheDuration (fst (snd cached_call))"
    by (simp add: cv cached_call_eq(2) example_fetcher_simps)
  with w2 have c2: "fetchWaterAnalysis (fst (snd cached_call)) (snd (snd cached_call)\<lparr>now := 1700000300119\<rparr>) example_key False =
     (Fulfilled (JObj (tagged example_payload (js ''memory_cache''))), fst (snd cached_call),
      snd (snd cached_call)\<lparr>now := 1700000300119\<rparr>)"
    by (simp add: cv)
  have o: "\<not> (\<exists>c. memory_hit example_fetcher stored_world example_key False c) \<and> \<not> onLine stored_world \<and>
        hasIndexedDB stored_world \<and> openError stored_world = None \<and> \<not> getFails stored_world \<and>
        db stored_world = Some (Database (Some [example_key \<mapsto>
               \<lparr>data = example_payload, timestamp = 1699999999000, plz = example_key\<rparr>]))"
    by (simp add: stored_world_def example_world_def example_fetcher_simps)
  with fetchWaterAnalysis_resolution_order[where this = example_fetcher and w = stored_world and key = example_key and fr = False]
  have "fetchWaterAnalysis example_fetcher stored_world example_key False =
          (case [example_key \<mapsto> \<lparr>data = example_payload, timestamp = 1699999999000, plz = example_key\<rparr>] example_key of
             None \<Rightarrow> (Rejected offlineUnavailable, example_fetcher, stored_world)
           | Some r \<Rightarrow>
               if now stored_world - timestamp r < 604800000 \<and> truthy (data r)
               then (Fulfilled (JObj ((tagged (data r) (js ''offline_storage''))
                                       (js ''offline'' \<mapsto> JBool True))), example_fetcher, stored_world)
               else (Rejected offlineUnavailable, example_fetcher, stored_world))"
    by blast
  then have c3: "fetchWaterAnalysis example_fetcher stored_world example_key False =
     (Fulfilled (JObj ((tagged example_payload (js ''offline_storage''))(js ''offline'' \<mapsto> JBool True))),
      example_fetcher, stored_world)"
    by (simp add: stored_world_def example_world_def example_payload_def)
  from T have "(reqs (snd (snd cached_call)) \<noteq> reqs reachable_world) =
      (onLine reachable_world \<and> \<not> (\<exists>c. memory_hit example_fetcher reachable_world example_key False c))"
    unfolding cached_call_def by blast
  then have c4: "reqs (snd (snd cached_call)) \<noteq> reqs reachable_world"
    by (simp add: reachable_world_def example_world_def example_fetcher_simps)
  show ?thesis using h c1 e s c2 c3 c4 by blast
qed

text \<open>
  Claim C1, counterexample to the claim as stated.  The network is unreachable: the first
  call issues 3 calls of \<open>fetch()\<close> and returns fallback data, which is not cached; a second
  call for the same key without \<open>forceRefresh\<close>, 3150 ms after the first began (the TTL is
  300000 ms), issues 3 more.
\<close>

theorem unreachable_network_refetched_within_ttl:
  "fst first_call = Fulfilled (getFallbackData example_fetcher unreachable_world example_key) \<and>
   reqs (snd (snd first_call)) - reqs unreachable_world = 3 \<and>
   now (snd (snd first_call)) - now unreachable_world < cacheDuration (fst (snd first_call)) \<and>
   reqs (snd (snd (fetchWaterAnalysis (fst (snd first_call)) (snd (snd first_call)) example_key False)))
     - reqs unreachable_world = 6"
proof -
  let ?w3 = "snd (snd first_call)"
  have f: "fst (snd first_call) = example_fetcher" by (simp add: first_call_eq)
  have w3: "onLine ?w3" "reqs ?w3 = 3" "net ?w3 = down_net" "now ?w3 = 1700000003150"
    by (simp_all add: first_call_eq attempt_simps sleep_simps attempt_frame sleep_frame
          unreachable_world_simps down_net_def)
  have second: "fetchWaterAnalysis example_fetcher ?w3 example_key False =
     (Fulfilled (getFallbackData example_fetcher ?w3 example_key), example_fetcher,
      snd (attempt (analysis_url example_fetcher) (analysis_options example_key)
        (sleep 2000 (snd (attempt (analysis_url example_fetcher) (analysis_options example_key)
          (sleep 1000 (snd (attempt (analysis_url example_fetcher) (analysis_options example_key)
             ?w3))))))))"
    by (rule fetch_when_unreachable) (simp_all add: w3 example_fetcher_simps down_net_fails)
  have "reqs (snd (snd (fetchWaterAnalysis example_fetcher ?w3 example_key False))) = 6"
    unfolding second by (simp add: attempt_simps sleep_simps w3)
  then show ?thesis
    using w3 by (simp add: f first_call_eq unreachable_world_simps example_fetcher_simps)
qed

text \<open>
  Step 2 at two further inputs.  Offline, with IndexedDB present and the database not yet
  created, \<open>getOfflineData\<close> creates it without object store and the call never settles;
  a stored record whose payload is falsy (here the number 0) is treated as absent.
\<close>

lemma offline_read_without_store_never_settles:
  "fst (fetchWaterAnalysis example_fetcher (example_world\<lparr>onLine := False\<rparr>) example_key False) = Pending \<and>
   db (snd (snd (fetchWaterAnalysis example_fetcher (example_world\<lparr>onLine := False\<rparr>) example_key False)))
     = Some (Database None)"
  by (simp add: fetchWaterAnalysis_def fetchUncached_def getOfflineData_def open_db_def
        example_world_def example_fetcher_simps)

lemma offline_falsy_payload_rejected:
  "fst (fetchWaterAnalysis example_fetcher
          (example_world\<lparr>onLine := False,
             db := Some (Database (Some [example_key \<mapsto>
                     \<lparr>data = JNum 0, timestamp = 1699999999000, plz = example_key\<rparr>]))\<rparr>)
          example_key False) = Rejected offlineUnavailable"
  by (simp add: fetchWaterAnalysis_def fetchUncached_def getOfflineData_def open_db_def
        example_world_def example_fetcher_simps maxOfflineAge_def)

text \<open>
  Claim C2, the code at the failing inputs.  The network answers 200 with the payload.
  When the open request of IndexedDB ends in \<open>error\<close>, or the write transaction does,
  \<open>saveOfflineData\<close> rejects inside the \<open>try\<close> block and \<open>fetchWaterAnalysis\<close> is rejected with
  the storage error; when the database exists without its object store the call never
  settles.  Only when the write completes is the payload returned tagged \<open>api\<close>.
\<close>

theorem persist_failure_fails_fetch:
  "fst (fetchWaterAnalysis example_fetcher (reachable_world\<lparr>openError := Some storageError\<rparr>)
          example_key False) = Rejected storageError \<and>
   fst (fetchWaterAnalysis example_fetcher (reachable_world\<lparr>putError := Some storageError\<rparr>)
          example_key False) = Rejected storageError \<and>
   fst (fetchWaterAnalysis example_fetcher (reachable_world\<lparr>db := Some (Database None)\<rparr>)
          example_key False) = Pending \<and>
   fst (fetchWaterAnalysis example_fetcher reachable_world example_key False) =
     Fulfilled (JObj (tagged example_payload (js ''api'')))"
proof -
  have n: "\<not> str_includes (message storageError) (js ''Failed to fetch'')"
    by (simp add: storageError_def str_includes_def js_def sublist_code)
  note ev = reachable_world_def example_world_def steady_net_answers example_fetcher_simps
    saveOfflineData_def open_db_def attempt_frame catch_fetch_def
  have 1: "fst (fetchWaterAnalysis example_fetcher (reachable_world\<lparr>openError := Some storageError\<rparr>)
          example_key False) = Rejected storageError"
    using n by (subst fetch_first_success[where d = example_payload]) (simp_all add: ev)
  have 2: "fst (fetchWaterAnalysis example_fetcher (reachable_world\<lparr>putError := Some storageError\<rparr>)
          example_key False) = Rejected storageError"
    using n by (subst fetch_first_success[where d = example_payload]) (simp_all add: ev)
  have 3: "fst (fetchWaterAnalysis example_fetcher (reachable_world\<lparr>db := Some (Database None)\<rparr>)
          example_key False) = Pending"
    by (subst fetch_first_success[where d = example_payload]) (simp_all add: ev)
  have 4: "fst (fetchWaterAnalysis example_fetcher reachable_world example_key False) =
     Fulfilled (JObj (tagged example_payload (js ''api'')))"
    by (subst fetch_first_success[where d = example_payload]) (simp_all add: ev)
  show ?thesis using 1 2 3 4 by simp
qed

text \<open>
  Claim C4, as amended.  A result tagged \<open>memory_cache\<close> comes from an entry whose age is
  below the TTL at the time of the call; with an entry whose age has reached the TTL the
  call returns what it returns without that entry, and leaves the world the same.  The
  sweep run at time \<open>t\<close> keeps exactly the entries with \<open>t - timestamp \<le> cacheDuration\<close>:
  it evicts those with \<open>t - timestamp > cacheDuration\<close>.  The sweep period is 60000 ms.
\<close>

theorem memory_cache_expiry:
  "(\<forall>v. fst (fetchWaterAnalysis this w key fr) = Fulfilled v \<and>
        get_prop v (js ''source'') = JStr (js ''memory_cache'') \<longrightarrow>
        (\<exists>c. memory_hit this w key fr c \<and> v = JObj (tagged (data c) (js ''memory_cache'')))) \<and>
   (\<forall>c. cache this (cacheKey key) = Some c \<and> cacheDuration this \<le> now w - timestamp c \<longrightarrow>
        fst (fetchWaterAnalysis this w key fr) =
          fst (fetchWaterAnalysis (this\<lparr>cache := (cache this)(cacheKey key := None)\<rparr>) w key fr) \<and>
        snd (snd (fetchWaterAnalysis this w key fr)) =
          snd (snd (fetchWaterAnalysis (this\<lparr>cache := (cache this)(cacheKey key := None)\<rparr>) w key fr))) \<and>
   (\<forall>k e. cache (cacheCleanup this t) k = Some e \<longleftrightarrow>
        cache this k = Some e \<and> t - timestamp e \<le> cacheDuration this) \<and>
   cleanupInterval = 60000"
proof (intro conjI allI impI)
  fix v
  assume a: "fst (fetchWaterAnalysis this w key fr) = Fulfilled v \<and>
        get_prop v (js ''source'') = JStr (js ''memory_cache'')"
  obtain this1 w1 where "fetchWaterAnalysis this w key fr = (Fulfilled v, this1, w1)"
    using a by (cases "fetchWaterAnalysis this w key fr") auto
  from source_cases[OF this conjunct2[OF a]]
  show "\<exists>c. memory_hit this w key fr c \<and> v = JObj (tagged (data c) (js ''memory_cache''))"
    by blast
next
  fix c
  assume a: "cache this (cacheKey key) = Some c \<and> cacheDuration this \<le> now w - timestamp c"
  let ?that = "this\<lparr>cache := (cache this)(cacheKey key := None)\<rparr>"
  have m1: "\<not> (\<exists>c'. memory_hit this w key fr c')" using a by auto
  have m2: "\<not> (\<exists>c'. memory_hit ?that w key fr c')" by simp
  have e1: "fetchWaterAnalysis this w key fr = fetchUncached this w key"
    using m1 by (rule fetchWaterAnalysis_miss)
  have e2: "fetchWaterAnalysis ?that w key fr = fetchUncached ?that w key"
    using m2 by (rule fetchWaterAnalysis_miss)
  show "fst (fetchWaterAnalysis this w key fr) = fst (fetchWaterAnalysis ?that w key fr)"
    unfolding e1 e2 using fetchUncached_cache_irrelevant[where this = this and w = w and key = key] by simp
  show "snd (snd (fetchWaterAnalysis this w key fr)) = snd (snd (fetchWaterAnalysis ?that w key fr))"
    unfolding e1 e2 using fetchUncached_cache_irrelevant[where this = this and w = w and key = key] by simp
next
  fix k e
  show "cache (cacheCleanup this t) k = Some e \<longleftrightarrow>
        cache this k = Some e \<and> t - timestamp e \<le> cacheDuration this"
    by (auto simp: cacheCleanup_def split: option.splits if_splits)
next
  show "cleanupInterval = 60000" by (simp add: cleanupInterval_def)
qed

text \<open>
  Claim C4, witness: an entry one second old is served; at age equal to the TTL it is
  not served, and a sweep at that moment keeps it, a sweep one millisecond later evicts it.
\<close>

theorem memory_cache_expiry_witness:
  "fst (fetchWaterAnalysis warm_fetcher example_world example_key False) =
     Fulfilled (JObj (tagged example_payload (js ''memory_cache''))) \<and>
   get_prop (JObj (tagged example_payload (js ''memory_cache''))) (js ''source'') = JStr (js ''memory_cache'') \<and>
   memory_hit warm_fetcher example_world example_key False fresh_entry \<and>
   cache warm_fetcher (cacheKey example_key) = Some fresh_entry \<and>
   cacheDuration warm_fetcher \<le> now expired_world - timestamp fresh_entry \<and>
   fst (fetchWaterAnalysis warm_fetcher expired_world example_key False) =
     fst (fetchWaterAnalysis (warm_fetcher\<lparr>cache := (cache warm_fetcher)(cacheKey example_key := None)\<rparr>)
            expired_world example_key False) \<and>
   cache (cacheCleanup warm_fetcher 1700000299000) (cacheKey example_key) = Some fresh_entry \<and>
   cache (cacheCleanup warm_fetcher 1700000299001) (cacheKey example_key) = None"
proof -
  have h: "memory_hit warm_fetcher example_world example_key False fresh_entry"
    by (simp add: warm_fetcher_simps example_world_def)
  have c1: "fst (fetchWaterAnalysis warm_fetcher example_world example_key False) =
     Fulfilled (JObj (tagged example_payload (js ''memory_cache'')))"
    using fetchWaterAnalysis_hit[OF h] by (simp add: warm_fetcher_simps)
  have s: "get_prop (JObj (tagged example_payload (js ''memory_cache''))) (js ''source'') = JStr (js ''memory_cache'')"
    by (rule source_tagged)
  note T = memory_cache_expiry[where this = warm_fetcher and w = example_world and key = example_key and fr = False]
  from T c1 s have "\<exists>c. memory_hit warm_fetcher example_world example_key False c \<and>
       JObj (tagged example_payload (js ''memory_cache'')) = JObj (tagged (data c) (js ''memory_cache''))"
    by blast
  then have c1': "memory_hit warm_fetcher example_world example_key False fresh_entry"
    by (simp add: warm_fetcher_simps)
  have x: "cache warm_fetcher (cacheKey example_key) = Some fresh_entry \<and>
           cacheDuration warm_fetcher \<le> now expired_world - timestamp fresh_entry"
    by (simp add: warm_fetcher_simps expired_world_def)
  with memory_cache_expiry[where this = warm_fetcher and w = expired_world and key = example_key and fr = False]
  have c2: "fst (fetchWaterAnalysis warm_fetcher expired_world example_key False) =
     fst (fetchWaterAnalysis (warm_fetcher\<lparr>cache := (cache warm_fetcher)(cacheKey example_key := None)\<rparr>)
            expired_world example_key False)"
    by blast
  from memory_cache_expiry[where this = warm_fetcher and w = example_world and key = example_key and fr = False and t = 1700000299000]
  have "cache (cacheCleanup warm_fetcher 1700000299000) (cacheKey example_key) = Some fresh_entry \<longleftrightarrow>
        cache warm_fetcher (cacheKey example_key) = Some fresh_entry \<and>
        1700000299000 - timestamp fresh_entry \<le> cacheDuration warm_fetcher"
    by blast
  then have c3: "cache (cacheCleanup warm_fetcher 1700000299000) (cacheKey example_key) = Some fresh_entry"
    by (simp add: warm_fetcher_simps)
  from memory_cache_expiry[where this = warm_fetcher and w = example_world and key = example_key and fr = False and t = 1700000299001]
  have "\<forall>e. cache (cacheCleanup warm_fetcher 1700000299001) (cacheKey example_key) = Some e \<longleftrightarrow>
        cache warm_fetcher (cacheKey example_key) = Some e \<and>
        1700000299001 - timestamp e \<le> cacheDuration warm_fetcher"
    by blast
  then have "\<forall>e. cache (cacheCleanup warm_fetcher 1700000299001) (cacheKey example_key) \<noteq> Some e"
    by (auto simp: warm_fetcher_simps)
  then have c4: "cache (cacheCleanup warm_fetcher 1700000299001) (cacheKey example_key) = None"
    by (cases "cache (cacheCleanup warm_fetcher 1700000299001) (cacheKey example_key)") auto
  show ?thesis using c1 s c1' x c2 c3 c4 by blast
qed

text \<open>
  Claim C4, counterexample to the claim as stated: an entry with
  \<open>now - timestamp = cacheDuration\<close> (300000) survives the sweep.
\<close>

theorem cacheCleanup_spares_age_equal_ttl:
  "300000 - timestamp \<lparr>data = JNull, timestamp = 0\<rparr> \<ge>
     cacheDuration ((DataFetcher None None)\<lparr>cache := [js ''analysis_10115'' \<mapsto> \<lparr>data = JNull, timestamp = 0\<rparr>]\<rparr>) \<and>
   cache (cacheCleanup ((DataFetcher None None)\<lparr>cache := [js ''analysis_10115'' \<mapsto> \<lparr>data = JNull, timestamp = 0\<rparr>]\<rparr>) 300000)
     (js ''analysis_10115'') = Some \<lparr>data = JNull, timestamp = 0\<rparr>"
  by (simp add: cacheCleanup_def DataFetcher_def)

text \<open>
  Claim C9.  \<open>getFallbackData\<close> returns the same object for the same key whatever the
  fetcher and the world (clock, network, storage) it is called in; and whenever
  \<open>fetchWaterAnalysis\<close> returns a result tagged \<open>fallback_data\<close> for a key, that result is
  this object.
\<close>

theorem getFallbackData_deterministic:
  "getFallbackData this1 w1 key = getFallbackData this2 w2 key \<and>
   (\<forall>this w fr v. fst (fetchWaterAnalysis this w key fr) = Fulfilled v \<and>
        get_prop v (js ''source'') = JStr (js ''fallback_data'') \<longrightarrow>
        v = getFallbackData this2 w2 key)"
proof (intro conjI allI impI)
  show "getFallbackData this1 w1 key = getFallbackData this2 w2 key"
    by (simp add: getFallbackData_def guessCityFromPLZ_def)
next
  fix this w fr v
  assume a: "fst (fetchWaterAnalysis this w key fr) = Fulfilled v \<and>
        get_prop v (js ''source'') = JStr (js ''fallback_data'')"
  obtain t1 w1 where "fetchWaterAnalysis this w key fr = (Fulfilled v, t1, w1)"
    using a by (cases "fetchWaterAnalysis this w key fr") auto
  from source_cases[OF this conjunct2[OF a]]
  have "v = getFallbackData this w key" by blast
  then show "v = getFallbackData this2 w2 key" using getFallbackData_any by simp
qed

text \<open>
  Claim C9, witness: the fallback object returned against the unreachable network is the
  one computed with another fetcher in another world.
\<close>

theorem getFallbackData_deterministic_witness:
  "fst first_call = Fulfilled (getFallbackData example_fetcher unreachable_world example_key) \<and>
   get_prop (getFallbackData example_fetcher unreachable_world example_key) (js ''source'') =
     JStr (js ''fallback_data'') \<and>
   getFallbackData example_fetcher unreachable_world example_key =
     getFallbackData warm_fetcher stored_world example_key"
proof -
  have 1: "fst first_call = Fulfilled (getFallbackData example_fetcher unreachable_world example_key)"
    by (simp add: first_call_eq)
  have 2: "get_prop (getFallbackData example_fetcher unreachable_world example_key) (js ''source'') =
     JStr (js ''fallback_data'')"
    by (rule source_fallback)
  from getFallbackData_deterministic[where ?this1.0 = example_fetcher and ?w1.0 = unreachable_world and key = example_key and ?this2.0 = warm_fetcher and ?w2.0 = stored_world]
  have "\<forall>this w fr v. fst (fetchWaterAnalysis this w example_key fr) = Fulfilled v \<and>
        get_prop v (js ''source'') = JStr (js ''fallback_data'') \<longrightarrow>
        v = getFallbackData warm_fetcher stored_world example_key"
    by blast
  with 1 2 have "getFallbackData example_fetcher unreachable_world example_key =
     getFallbackData warm_fetcher stored_world example_key"
    unfolding first_call_def by blast
  with 1 2 show ?thesis by simp
qed

subsection \<open>The analytics buffer\<close>

lemma slice_from_end_spec:
  "length (slice_from_end n xs) = min n (length xs) \<and>
   (\<exists>dropped. xs = dropped @ slice_from_end n xs)"
proof -
  have "xs = take (length xs - n) xs @ slice_from_end n xs"
    by (simp add: slice_from_end_def)
  then have "\<exists>dropped. xs = dropped @ slice_from_end n xs" ..
  then show ?thesis by (simp add: slice_from_end_def) 
qed

text \<open>
  Claim C10.  When \<open>bufferAnalytics\<close> returns, the item holds a list of at most 50 events:
  the previous events followed by the new one, with the oldest dropped so that
  \<open>min 50 (n + 1)\<close> remain, the most recent ones.
\<close>

theorem bufferAnalytics_bounded:
  assumes "bufferAnalytics ev item = Inr item'"
  shows "\<exists>kept dropped.
           item' = Some (JsonArray kept) \<and>
           length kept \<le> 50 \<and>
           length kept = min 50 (Suc (length (buffered item))) \<and>
           buffered item @ [ev] = dropped @ kept"
proof -
  have "item' = Some (JsonArray (slice_from_end 50 (buffered item @ [ev])))"
    using assms by (auto simp: bufferAnalytics_def split: option.splits stored.splits)
  moreover have "length (slice_from_end 50 (buffered item @ [ev])) = min 50 (length (buffered item @ [ev]))"
    "\<exists>dropped. buffered item @ [ev] = dropped @ slice_from_end 50 (buffered item @ [ev])"
    using slice_from_end_spec[of 50 "buffered item @ [ev]"] by blast+
  ultimately show ?thesis by auto
qed

text \<open>
  Claim C10, witness: appending to a buffer of 50 events drops the oldest one.
\<close>

theorem bufferAnalytics_bounded_witness:
  "bufferAnalytics (1::nat) (Some (JsonArray (replicate 50 0))) =
     Inr (Some (JsonArray (replicate 49 0 @ [1]))) \<and>
   (\<exists>kept dropped.
      Some (JsonArray (replicate 49 0 @ [1::nat])) = Some (JsonArray kept) \<and>
      length kept \<le> 50 \<and>
      length kept = min 50 (Suc (length (buffered (Some (JsonArray (replicate 50 (0::nat))))))) \<and>
      buffered (Some (JsonArray (replicate 50 0))) @ [1] = dropped @ kept)"
proof -
  have e: "bufferAnalytics (1::nat) (Some (JsonArray (replicate 50 0))) =
             Inr (Some (JsonArray (replicate 49 0 @ [1])))"
    by (simp add: bufferAnalytics_def slice_from_end_def)
  show ?thesis using bufferAnalytics_bounded[OF e] e by simp
qed

subsection \<open>The service worker\<close>

lemma map_of_update_named:
  "map_of (map (\<lambda>(n, c). if n = name then (n, g c) else (n, c)) cs) name =
   map_option g (map_of cs name)"
  by (induction cs) auto

lemma cache_match_put:
  "cache_match name (cache_put name request resp (caches_open name w)) request = Some resp"
  by (auto simp: cache_match_def cache_put_def caches_open_def map_of_update_named map_add_def
           split: option.splits)

lemma cache_match_open:
  "cache_match name (caches_open name w) request = cache_match name w request"
  by (auto simp: cache_match_def caches_open_def split: option.splits)

text \<open>
  Claim C3.  For a GET request whose path contains an API pattern: a network response
  with status 200 is returned and is afterwards the cached response of the request in
  the cache \<open>wasserfilter-v4\<close>; when \<open>fetch\<close> rejects, the cached response of the request is
  returned if there is one; otherwise a response with status 503 whose body is the JSON
  text of an object with \<open>error\<close> equal to \<open>Offline\<close>.
\<close>

theorem api_requests_network_first:
  assumes "req_method request = js ''GET''"
    and "list_ex (\<lambda>pattern. str_includes (pathname (req_url request)) pattern) API_CACHE_PATTERNS"
  shows "(\<forall>resp. sw_net w request = Inr resp \<and> status resp = 200 \<longrightarrow>
            fst (onfetch request w) = Some (Inr (Some resp)) \<and>
            cache_match CACHE_NAME (snd (onfetch request w)) request = Some resp) \<and>
         (\<forall>e cached. sw_net w request = Inl e \<and> cache_match CACHE_NAME w request = Some cached \<longrightarrow>
            fst (onfetch request w) = Some (Inr (Some cached))) \<and>
         (\<forall>e. sw_net w request = Inl e \<and> cache_match CACHE_NAME w request = None \<longrightarrow>
            (\<exists>r v. fst (onfetch request w) = Some (Inr (Some r)) \<and> status r = 503 \<and>
                   resp_body r = JsonText v \<and> get_prop v (js ''error'') = JStr (js ''Offline'')))"
proof -
  have d: "onfetch request w = (case handleApiRequest request w of (r, w1) \<Rightarrow> (Some r, w1))"
    using assms by (simp add: onfetch_def)
  have off: "status offlineResponse = 503 \<and>
        resp_body offlineResponse = JsonText (JObj [js ''error'' \<mapsto> JStr (js ''Offline''),
         js ''message'' \<mapsto> JStr (js ''Sie sind offline. Bitte stellen Sie eine Internetverbindung her.'')])"
    by (simp add: offlineResponse_def)
  have err: "get_prop (JObj [js ''error'' \<mapsto> JStr (js ''Offline''),
         js ''message'' \<mapsto> JStr (js ''Sie sind offline. Bitte stellen Sie eine Internetverbindung her.'')])
        (js ''error'') = JStr (js ''Offline'')"
    by (simp add: get_prop_def js_def)
  show ?thesis
    unfolding d using off err
    by (auto simp: handleApiRequest_def Let_def cache_match_put cache_match_open)
qed

text \<open>
  Claim C3, witness: an API request answered by the network, then served from the cache
  when the network fails, and answered 503 when nothing is cached.
\<close>

theorem api_requests_network_first_witness:
  "req_method api_request = js ''GET'' \<and>
   list_ex (\<lambda>pattern. str_includes (pathname (req_url api_request)) pattern) API_CACHE_PATTERNS \<and>
   fst (onfetch api_request (sw_online [])) = Some (Inr (Some (page_200 (js ''fresh'')))) \<and>
   fst (onfetch api_request (snd (onfetch api_request (sw_online []))\<lparr>sw_net := (\<lambda>r. Inl failedToFetch)\<rparr>))
     = Some (Inr (Some (page_200 (js ''fresh'')))) \<and>
   (\<exists>r v. fst (onfetch api_request (sw_offline [])) = Some (Inr (Some r)) \<and> status r = 503 \<and>
          resp_body r = JsonText v \<and> get_prop v (js ''error'') = JStr (js ''Offline''))"
proof -
  let ?w1 = "sw_online []"
  let ?w2 = "snd (onfetch api_request ?w1)\<lparr>sw_net := (\<lambda>r. Inl failedToFetch)\<rparr>"
  let ?w3 = "sw_offline []"
  have g: "req_method api_request = js ''GET''" by (simp add: api_request_def)
  have a: "list_ex (\<lambda>pattern. str_includes (pathname (req_url api_request)) pattern) API_CACHE_PATTERNS"
    by (simp add: api_request_def API_CACHE_PATTERNS_def pathname_def str_includes_def js_def)
  have n1: "sw_net ?w1 api_request = Inr (page_200 (js ''fresh'')) \<and> status (page_200 (js ''fresh'')) = 200"
    by (simp add: sw_online_def page_200_def)
  with api_requests_network_first[OF g a, of ?w1]
  have c1: "fst (onfetch api_request ?w1) = Some (Inr (Some (page_200 (js ''fresh''))))"
    and m1: "cache_match CACHE_NAME (snd (onfetch api_request ?w1)) api_request = Some (page_200 (js ''fresh''))"
    by blast+
  have n2: "sw_net ?w2 api_request = Inl failedToFetch \<and>
            cache_match CACHE_NAME ?w2 api_request = Some (page_200 (js ''fresh''))"
    using m1 by (simp add: cache_match_def)
  with api_requests_network_first[OF g a, of ?w2]
  have c2: "fst (onfetch api_request ?w2) = Some (Inr (Some (page_200 (js ''fresh''))))"
    by blast
  have n3: "sw_net ?w3 api_request = Inl failedToFetch \<and> cache_match CACHE_NAME ?w3 api_request = None"
    by (simp add: sw_offline_def cache_match_def)
  with api_requests_network_first[OF g a, of ?w3]
  have c3: "\<exists>r v. fst (onfetch api_request ?w3) = Some (Inr (Some r)) \<and> status r = 503 \<and>
          resp_body r = JsonText v \<and> get_prop v (js ''error'') = JStr (js ''Offline'')"
    by blast
  show ?thesis using g a c1 c2 c3 by blast
qed

lemma pathname_has_slash: "str_includes (pathname u) (js ''/'')"
  by (simp add: pathname_def str_includes_def js_def)

text \<open>
  Claim C6, the code at the failing input.  A GET request for \<open>/index.html\<close> with a cached
  copy: the handler is rejected with the ReferenceError and returns no response, and
  the cache is not refreshed; \<open>updateCache\<close>, had it run, would have stored the fresh
  response.
\<close>

theorem static_hit_throws:
  "fst (onfetch asset_request (sw_online [(CACHE_NAME, [href (req_url asset_request) \<mapsto> page_200 (js ''stale'')])]))
     = Some (Inl eventNotDefined) \<and>
   updateCache asset_request CACHE_NAME (sw_online [(CACHE_NAME, [href (req_url asset_request) \<mapsto> page_200 (js ''stale'')])])
     = sw_online [(CACHE_NAME, [href (req_url asset_request) \<mapsto> page_200 (js ''fresh'')])]"
proof -
  have napi: "\<not> list_ex (\<lambda>pattern. str_includes (pathname (req_url asset_request)) pattern) API_CACHE_PATTERNS"
    by (simp add: asset_request_def API_CACHE_PATTERNS_def pathname_def str_includes_def js_def sublist_code)
  have st: "list_ex (\<lambda>asset. str_includes (pathname (req_url asset_request)) asset) PRECACHE_ASSETS"
    using pathname_has_slash[of "req_url asset_request"] by (simp add: PRECACHE_ASSETS_def)
  have g: "req_method asset_request = js ''GET''" by (simp add: asset_request_def)
  let ?w = "sw_online [(CACHE_NAME, [href (req_url asset_request) \<mapsto> page_200 (js ''stale'')])]"
  have 1: "fst (onfetch asset_request ?w) = Some (Inl eventNotDefined)"
    using napi st g
    by (simp add: onfetch_def handleStaticRequest_def sw_online_def caches_open_def cache_match_def Let_def)
  have 2: "updateCache asset_request CACHE_NAME ?w
     = sw_online [(CACHE_NAME, [href (req_url asset_request) \<mapsto> page_200 (js ''fresh'')])]"
    by (simp add: updateCache_def sw_online_def cache_put_def page_200_def)
  show ?thesis using 1 2 by simp
qed

text \<open>
  Claim C7, the code at the failing input.  \<open>/\<close> is an entry of \<open>PRECACHE_ASSETS\<close> and every
  pathname contains it, so every GET request that is not of the API class is handled by
  \<open>handleStaticRequest\<close> and none by \<open>handleNetworkFirst\<close>.  A navigation to \<open>/about.html\<close>
  with the network down is rejected with the network error, although the offline page is
  cached and \<open>handleNetworkFirst\<close> would have returned it.
\<close>

theorem every_get_path_classed_static:
  "list_ex (\<lambda>asset. str_includes (pathname (req_url request)) asset) PRECACHE_ASSETS \<and>
   fst (onfetch page_request (sw_offline [(CACHE_NAME, [example_origin @ OFFLINE_URL \<mapsto> page_200 (js ''offline page'')])]))
      = Some (Inl failedToFetch) \<and>
   fst (handleNetworkFirst page_request (sw_offline [(CACHE_NAME, [example_origin @ OFFLINE_URL \<mapsto> page_200 (js ''offline page'')])]))
      = Inr (Some (page_200 (js ''offline page'')))"
proof -
  have "str_includes (pathname (req_url request)) (js ''/'')" by (rule pathname_has_slash)
  then have 1: "list_ex (\<lambda>asset. str_includes (pathname (req_url request)) asset) PRECACHE_ASSETS"
    by (simp add: PRECACHE_ASSETS_def)
  have napi: "\<not> list_ex (\<lambda>pattern. str_includes (pathname (req_url page_request)) pattern) API_CACHE_PATTERNS"
    by (simp add: page_request_def API_CACHE_PATTERNS_def pathname_def str_includes_def js_def sublist_code)
  have st: "list_ex (\<lambda>asset. str_includes (pathname (req_url page_request)) asset) PRECACHE_ASSETS"
    using pathname_has_slash[of "req_url page_request"] by (simp add: PRECACHE_ASSETS_def)
  have g: "req_method page_request = js ''GET''" by (simp add: page_request_def)
  have k: "href (req_url page_request) \<noteq> example_origin @ OFFLINE_URL"
    by (simp add: page_request_def href_def pathname_def OFFLINE_URL_def js_def)
  have m: "mode page_request = js ''navigate''" by (simp add: page_request_def)
  let ?w = "sw_offline [(CACHE_NAME, [example_origin @ OFFLINE_URL \<mapsto> page_200 (js ''offline page'')])]"
  have 2: "fst (onfetch page_request ?w) = Some (Inl failedToFetch)"
    using napi st g k
    by (simp add: onfetch_def handleStaticRequest_def sw_offline_def caches_open_def cache_match_def Let_def)
  have 3: "fst (handleNetworkFirst page_request ?w) = Inr (Some (page_200 (js ''offline page'')))"
    using k m
    by (simp add: handleNetworkFirst_def sw_offline_def caches_open_def cache_match_def caches_match_def Let_def)
  show ?thesis using 1 2 3 by simp
qed

end
